theory Spec2Isabelle
  imports Complex_Main "HOL-Library.Product_Lexorder"
begin

section \<open>JavaScript primitives used by the proxy managers\<close>

text \<open>
  Strings are lists of code units below 256; numbers that the code only ever
  uses as integers (ports, health scores, millisecond differences of
  \<^verbatim>\<open>Date.now()\<close>) are \<^typ>\<open>int\<close>, the remaining numbers (timeouts,
  latency, jitter, scores) are the rational values of finite doubles. The
  connection metrics are computed with exact arithmetic; where the exact
  result matters, in the adaptive timeout, the rounding of each arithmetic
  result to a double is a parameter. A thrown value is an \<open>exn\<close>.
\<close>

datatype exn = Error string | TypeError string | SystemError string

text \<open>\<^verbatim>\<open>Math.round\<close>: the nearest integer, ties towards plus infinity.\<close>

definition js_round :: "rat \<Rightarrow> int" where
  "js_round x = \<lfloor>x + 1 / 2\<rfloor>"

text \<open>
  White space and line terminators of ECMAScript among the code units below
  256: TAB, LF, VT, FF, CR, SPACE and NBSP. \<^verbatim>\<open>String.prototype.trim\<close> and
  \<^verbatim>\<open>parseInt\<close> strip exactly these.
\<close>

definition is_ws :: "char \<Rightarrow> bool" where
  "is_ws c = (c \<in> set [CHR 0x09, CHR 0x0A, CHR 0x0B, CHR 0x0C, CHR 0x0D, CHR 0x20, CHR 0xA0])"

definition js_trim :: "string \<Rightarrow> string" where
  "js_trim s = rev (dropWhile is_ws (rev (dropWhile is_ws s)))"

text \<open>\<^verbatim>\<open>s.split(c)\<close> for a one-character separator.\<close>

fun js_split :: "char \<Rightarrow> string \<Rightarrow> string list" where
  "js_split c [] = [[]]"
| "js_split c (x # xs) =
     (if x = c then [] # js_split c xs
      else (case js_split c xs of [] \<Rightarrow> [[x]] | w # ws \<Rightarrow> (x # w) # ws))"

text \<open>\<^verbatim>\<open>s.includes(sub)\<close>.\<close>

fun js_includes :: "string \<Rightarrow> string \<Rightarrow> bool" where
  "js_includes sub [] = (sub = [])"
| "js_includes sub (x # xs) = (take (length sub) (x # xs) = sub \<or> js_includes sub xs)"

text \<open>\<^verbatim>\<open>s.replace(c, "")\<close> for a one-character pattern: the first occurrence goes.\<close>

fun js_replace_first :: "char \<Rightarrow> string \<Rightarrow> string" where
  "js_replace_first c [] = []"
| "js_replace_first c (x # xs) = (if x = c then xs else x # js_replace_first c xs)"

text \<open>Digits of \<^verbatim>\<open>parseInt\<close> for the radices 10 and 16 (its only radices without a radix argument).\<close>

definition digit_val :: "char \<Rightarrow> nat option" where
  "digit_val = map_of
     [(CHR ''0'', 0), (CHR ''1'', 1), (CHR ''2'', 2), (CHR ''3'', 3), (CHR ''4'', 4),
      (CHR ''5'', 5), (CHR ''6'', 6), (CHR ''7'', 7), (CHR ''8'', 8), (CHR ''9'', 9),
      (CHR ''a'', 10), (CHR ''b'', 11), (CHR ''c'', 12), (CHR ''d'', 13), (CHR ''e'', 14),
      (CHR ''f'', 15), (CHR ''A'', 10), (CHR ''B'', 11), (CHR ''C'', 12), (CHR ''D'', 13),
      (CHR ''E'', 14), (CHR ''F'', 15)]"

definition is_radix_digit :: "nat \<Rightarrow> char \<Rightarrow> bool" where
  "is_radix_digit R c = (case digit_val c of None \<Rightarrow> False | Some d \<Rightarrow> d < R)"

definition radix_value :: "nat \<Rightarrow> string \<Rightarrow> nat" where
  "radix_value R Z = foldl (\<lambda>a c. a * R + (case digit_val c of None \<Rightarrow> 0 | Some d \<Rightarrow> d)) 0 Z"

text \<open>
  \<^verbatim>\<open>Number.parseInt(s)\<close> with no radix: skip leading white space, take one
  optional sign, switch to radix 16 after a \<^verbatim>\<open>0x\<close> or \<^verbatim>\<open>0X\<close> prefix, read the
  longest run of digits and ignore whatever follows. \<open>None\<close> is \<^verbatim>\<open>NaN\<close>.
  The mathematical value is kept exact: the code compares the result with 1
  and 65535 only, and rounding to a double is monotone and exact up to 65535.
\<close>

definition parseInt :: "string \<Rightarrow> int option" where
  "parseInt s =
     (let S = dropWhile is_ws s;
          sgn = (case S of [] \<Rightarrow> 1 | c # r \<Rightarrow> if c = CHR ''-'' then - 1 else (1::int));
          S1 = (case S of [] \<Rightarrow> [] | c # r \<Rightarrow> if c = CHR ''-'' \<or> c = CHR ''+'' then r else S);
          hex = (case S1 of a # b # r \<Rightarrow> a = CHR ''0'' \<and> (b = CHR ''x'' \<or> b = CHR ''X'') | _ \<Rightarrow> False);
          R = (if hex then 16 else 10);
          S2 = (if hex then drop 2 S1 else S1);
          Z = takeWhile (is_radix_digit R) S2
      in if Z = [] then None else Some (sgn * int (radix_value R Z)))"

text \<open>
  Template-literal rendering of an integer; \<open>digit_char\<close> is applied to
  numbers below 10 only.
\<close>

definition digit_char :: "nat \<Rightarrow> char" where
  "digit_char d = ''0123456789'' ! d"

fun string_of_nat :: "nat \<Rightarrow> string" where
  "string_of_nat n =
     (if n < 10 then [digit_char n] else string_of_nat (n div 10) @ [digit_char (n mod 10)])"

declare string_of_nat.simps [simp del]

definition string_of_int :: "int \<Rightarrow> string" where
  "string_of_int i = (if i < 0 then CHR ''-'' # string_of_nat (nat (- i)) else string_of_nat (nat i))"


section \<open>QuantumProxyManager (src/proxy/quantum-proxy-manager.ts)\<close>

record QuantumProxyConfig =
  host :: string
  port :: int
  protocol :: string
  username :: "string option"
  password :: "string option"

record ConnectionMetrics =
  latency :: rat
  jitter :: rat
  packetLoss :: rat
  bandwidth :: rat
  lastTested :: int
  stability :: rat

text \<open>
  The result of the security assessment comes from \<open>SecureConnectionManager\<close>,
  a collaborator; of its fields this module reads the three below.
\<close>

record SecureConnectionMetrics =
  securityScore :: rat
  vulnerabilities :: "string list"
  recommendations :: "string list"

text \<open>A client handle is known by the factory that made it and the relay it is wired to.\<close>

datatype AxiosInstance =
    SecureOptimizedInstance QuantumProxyConfig
  | OptimizedInstance QuantumProxyConfig

text \<open>\<open>SmartConnection\<close>; its own \<^verbatim>\<open>dnsCache\<close> map is created empty and never used.\<close>

record SmartConnection =
  proxy :: QuantumProxyConfig
  metrics :: ConnectionMetrics
  axiosInstance :: AxiosInstance
  lastUsed :: int
  connectionPool :: "AxiosInstance list"
  securityMetrics :: "SecureConnectionMetrics option"

record dns_entry =
  ip :: string
  expires :: int

record QuantumProxyManager =
  connections :: "string \<rightharpoonup> SmartConnection"
  currentConnection :: "SmartConnection option"
  connectionPoolSize :: nat
  dnsCache :: "string \<rightharpoonup> dns_entry"
  dnsCacheTTL :: int
  targetDomain :: string

definition new_quantum :: "string \<Rightarrow> QuantumProxyManager" where
  "new_quantum domain =
     \<lparr>connections = Map.empty, currentConnection = None, connectionPoolSize = 3,
      dnsCache = Map.empty, dnsCacheTTL = 300000, targetDomain = domain\<rparr>"

definition connectionKey :: "QuantumProxyConfig \<Rightarrow> string" where
  "connectionKey c = protocol c @ ''://'' @ host c @ '':'' @ string_of_int (port c)"

subsection \<open>Name resolution with a cache\<close>

text \<open>
  \<open>quantumDNSResolve\<close> (lines 93-113). \<open>now1\<close> and \<open>now2\<close> are the two readings
  of the clock, \<open>dnsLookup\<close> is what the resolver would answer. The result is
  the address or the thrown error, the list of lookups issued, and the
  manager afterwards.
\<close>

definition quantumDNSResolve ::
  "QuantumProxyManager \<Rightarrow> string \<Rightarrow> int \<Rightarrow> (string \<Rightarrow> exn + string) \<Rightarrow> int
     \<Rightarrow> (exn + string) \<times> string list \<times> QuantumProxyManager" where
  "quantumDNSResolve s domain now1 dnsLookup now2 =
     (let cached = dnsCache s domain;
          resolved =
            (case dnsLookup domain of
               Inr address \<Rightarrow>
                 (Inr address, [domain],
                  s\<lparr>dnsCache := (dnsCache s)(domain \<mapsto> \<lparr>ip = address, expires = now2 + dnsCacheTTL s\<rparr>)\<rparr>)
             | Inl error \<Rightarrow>
                 (case cached of
                    Some c \<Rightarrow> (Inr (ip c), [domain], s)
                  | None \<Rightarrow> (Inl error, [domain], s)))
      in case cached of
           Some c \<Rightarrow> if expires c > now1 then (Inr (ip c), [], s) else resolved
         | None \<Rightarrow> resolved)"

subsection \<open>Connection quality\<close>

datatype socket_outcome = SockConnect int | SockError | SockTimeout

text \<open>\<open>simulateThreeWayHandshake\<close> (lines 270-292); \<open>SockConnect t\<close> connects after \<open>t\<close> ms.\<close>

fun simulateThreeWayHandshake :: "socket_outcome \<Rightarrow> bool" where
  "simulateThreeWayHandshake (SockConnect handshakeTime) = (handshakeTime < 3000)"
| "simulateThreeWayHandshake SockError = False"
| "simulateThreeWayHandshake SockTimeout = False"

definition testTCPHandshake :: "socket_outcome \<Rightarrow> bool" where
  "testTCPHandshake r = simulateThreeWayHandshake r"

datatype get_outcome = GetThrew | GetStatus int

text \<open>\<open>testHTTPConnectivity\<close> (lines 364-372).\<close>

fun testHTTPConnectivity :: "get_outcome \<Rightarrow> bool" where
  "testHTTPConnectivity (GetStatus status) = (status = 200)"
| "testHTTPConnectivity GetThrew = False"

text \<open>\<open>calculateJitter\<close> (lines 374-383).\<close>

fun totalJitter :: "rat list \<Rightarrow> rat" where
  "totalJitter (a # b # rest) = \<bar>b - a\<bar> + totalJitter (b # rest)"
| "totalJitter rest = 0"

definition calculateJitter :: "rat list \<Rightarrow> rat" where
  "calculateJitter samples =
     (if length samples < 2 then 0
      else totalJitter samples / of_nat (length samples - 1))"

text \<open>
  \<open>measureConnectionQuality\<close> (lines 115-161). \<open>tcp\<close> is the outcome of the
  TCP check, \<open>sample i\<close> the outcome of the i-th protocol-level request and the
  milliseconds it took, \<open>now\<close> the clock at entry. Nothing inside the
  \<^verbatim>\<open>try\<close> block throws, since both checks resolve to a boolean.
\<close>

definition collectSamples :: "(nat \<Rightarrow> get_outcome \<times> int) \<Rightarrow> rat list" where
  "collectSamples sample =
     concat (map (\<lambda>i. if testHTTPConnectivity (fst (sample i)) then [of_int (snd (sample i))] else [])
               [0..<5])"

definition measureConnectionQuality ::
  "socket_outcome \<Rightarrow> (nat \<Rightarrow> get_outcome \<times> int) \<Rightarrow> int \<Rightarrow> ConnectionMetrics" where
  "measureConnectionQuality tcp sample now =
     (let m0 = \<lparr>latency = 0, jitter = 0, packetLoss = 0, bandwidth = 0,
                lastTested = now, stability = 0\<rparr>
      in if \<not> testTCPHandshake tcp then m0\<lparr>stability := 0\<rparr>
         else
           let httpSamples = collectSamples sample
           in if length httpSamples = 0 then m0\<lparr>stability := 10\<rparr>
              else
                let lat = sum_list httpSamples / of_nat (length httpSamples);
                    jit = calculateJitter httpSamples;
                    loss = ((5 - of_nat (length httpSamples)) / 5) * 100;
                    latencyScore = max 0 (100 - lat / 10);
                    jitterScore = max 0 (100 - jit * 10);
                    lossScore = 100 - loss
                in m0\<lparr>latency := lat, jitter := jit, packetLoss := loss,
                      stability := of_int (js_round ((latencyScore + jitterScore + lossScore) / 3))\<rparr>)"

subsection \<open>Initialisation\<close>

text \<open>\<open>createConnectionPool\<close> (lines 236-251): \<open>check i\<close> tells whether the i-th validation request resolved.\<close>

definition createConnectionPool ::
  "QuantumProxyConfig \<Rightarrow> nat \<Rightarrow> (nat \<Rightarrow> bool) \<Rightarrow> AxiosInstance list" where
  "createConnectionPool cfg poolSize check =
     map (\<lambda>i. OptimizedInstance cfg) (filter check [0..<poolSize])"

fun testChunkedRequests :: "get_outcome \<Rightarrow> bool" where
  "testChunkedRequests (GetStatus status) = (status = 200)"
| "testChunkedRequests GetThrew = False"

definition performConnectionSeeding :: "(nat \<Rightarrow> get_outcome) \<Rightarrow> bool" where
  "performConnectionSeeding seed =
     (let successCount = length (filter (\<lambda>i. seed i = GetStatus 200) [0..<3])
      in successCount \<ge> 2)"

text \<open>\<open>performQuantumConnectivityTest\<close> (lines 253-268), the three-stage acceptance test.\<close>

definition performQuantumConnectivityTest ::
  "socket_outcome \<Rightarrow> get_outcome \<Rightarrow> (nat \<Rightarrow> get_outcome) \<Rightarrow> bool" where
  "performQuantumConnectivityTest hs chunk seed =
     (if \<not> simulateThreeWayHandshake hs then False
      else if \<not> testChunkedRequests chunk then False
      else if \<not> performConnectionSeeding seed then False
      else True)"

text \<open>Everything the outside world decides during one initialisation.\<close>

record init_env =
  dns_now1 :: int
  dns_lookup :: "string \<Rightarrow> exn + string"
  dns_now2 :: int
  security :: "exn + SecureConnectionMetrics"
  quality_tcp :: socket_outcome
  quality_sample :: "nat \<Rightarrow> get_outcome \<times> int"
  quality_now :: int
  used_now :: int
  pool_check :: "nat \<Rightarrow> bool"
  test_handshake :: socket_outcome
  test_chunked :: get_outcome
  test_seed :: "nat \<Rightarrow> get_outcome"

text \<open>
  \<open>initializeQuantumConnection\<close> (lines 45-91). A throw of the name
  resolution or of the security assessment lands in the \<^verbatim>\<open>catch\<close>, which
  returns false. The two client factories only build configuration objects
  and are taken not to throw.
\<close>

definition initializeQuantumConnection ::
  "QuantumProxyManager \<Rightarrow> QuantumProxyConfig \<Rightarrow> init_env \<Rightarrow> bool \<times> QuantumProxyManager" where
  "initializeQuantumConnection s proxyConfig env =
     (case quantumDNSResolve s (targetDomain s) (dns_now1 env) (dns_lookup env) (dns_now2 env) of
        (Inl error, _, s1) \<Rightarrow> (False, s1)
      | (Inr _, _, s1) \<Rightarrow>
          (case security env of
             Inl error \<Rightarrow> (False, s1)
           | Inr sm \<Rightarrow>
               let connection =
                     \<lparr>proxy = proxyConfig,
                      metrics = measureConnectionQuality (quality_tcp env) (quality_sample env) (quality_now env),
                      axiosInstance = SecureOptimizedInstance proxyConfig,
                      lastUsed = used_now env,
                      connectionPool =
                        createConnectionPool proxyConfig (connectionPoolSize s1) (pool_check env),
                      securityMetrics = Some sm\<rparr>
               in if \<not> performQuantumConnectivityTest (test_handshake env) (test_chunked env) (test_seed env)
                  then (False, s1)
                  else (True, s1\<lparr>connections := (connections s1)(connectionKey proxyConfig \<mapsto> connection),
                                 currentConnection := Some connection\<rparr>)))"

text \<open>
  \<open>getOptimizedConnection\<close> (lines 324-336): round robin over the pool, and the
  connection's own client when the pool is empty. The result is the client
  handed out and the current connection object after the call; that object
  is the one the table of connections holds as well.
\<close>

definition getOptimizedConnection ::
  "QuantumProxyManager \<Rightarrow> int \<Rightarrow> AxiosInstance option \<times> SmartConnection option" where
  "getOptimizedConnection s now =
     (case currentConnection s of
        None \<Rightarrow> (None, None)
      | Some c \<Rightarrow>
          (case connectionPool c of
             [] \<Rightarrow> (Some (axiosInstance c), Some (c\<lparr>lastUsed := now\<rparr>))
           | connection # rest \<Rightarrow>
               (Some connection, Some (c\<lparr>lastUsed := now, connectionPool := rest @ [connection]\<rparr>))))"

subsection \<open>Security audit\<close>

record audit_report =
  score :: rat
  vulnerabilities :: "string list"
  recommendations :: "string list"
  riskLevel :: string

text \<open>\<open>performSecurityAudit\<close> (lines 498-528).\<close>

definition performSecurityAudit :: "QuantumProxyManager \<Rightarrow> exn + audit_report" where
  "performSecurityAudit s =
     (case currentConnection s of
        None \<Rightarrow> Inl (Error ''No active connection to audit'')
      | Some c \<Rightarrow>
          (case securityMetrics c of
             None \<Rightarrow> Inl (Error ''No security metrics available'')
           | Some m \<Rightarrow>
               Inr \<lparr>score = securityScore m,
                    vulnerabilities = SecureConnectionMetrics.vulnerabilities m,
                    recommendations = SecureConnectionMetrics.recommendations m,
                    riskLevel =
                      (if securityScore m \<ge> 80 then ''LOW''
                       else if securityScore m \<ge> 60 then ''MEDIUM''
                       else if securityScore m \<ge> 40 then ''HIGH''
                       else ''CRITICAL'')\<rparr>))"

subsection \<open>Concrete configurations for closed instances\<close>

definition relayQ :: QuantumProxyConfig where
  "relayQ = \<lparr>host = ''10.0.0.9'', port = 1080, protocol = ''socks5'',
             username = None, password = None\<rparr>"

definition auditOk :: SecureConnectionMetrics where
  "auditOk = \<lparr>securityScore = 72, vulnerabilities = [''No TLS''],
              recommendations = [''Enable TLS'']\<rparr>"


section \<open>ProxyManager (src/proxy/proxy-manager.ts)\<close>

text \<open>
  A \<open>ProxyInfo\<close> as the manager builds it: \<open>parseProxy\<close> sets host, port and
  protocol, \<open>findBestProxy\<close> adds \<open>responseTime\<close>. The protocol is a string,
  since the URL branch of \<open>parseProxy\<close> stores whatever scheme the line has.
\<close>

record ProxyInfo =
  host :: string
  port :: int
  protocol :: string
  responseTime :: "int option"

text \<open>The key of the health map, \<^verbatim>\<open>`${p.host}:${p.port}`\<close>.\<close>

definition proxyKey :: "ProxyInfo \<Rightarrow> string" where
  "proxyKey p = host p @ '':'' @ string_of_int (port p)"

text \<open>
  What the network does to one probe request (\<^verbatim>\<open>axiosInstance.get(testUrl)\<close>):
  it throws with a message, or it answers with a status, a body that is
  truthy or not, and \<^verbatim>\<open>Date.now() - startTime\<close> milliseconds later.
\<close>

datatype probe = ProbeThrew string | ProbeResponded int bool int

text \<open>\<open>pingProxy\<close> (lines 153-215) catches every error itself: its result is the elapsed time or -1.\<close>

fun pingProxy :: "ProxyInfo \<Rightarrow> probe \<Rightarrow> int" where
  "pingProxy prx (ProbeResponded status body elapsed) =
     (if status = 200 \<and> body then elapsed else - 1)"
| "pingProxy prx (ProbeThrew errorMsg) = - 1"

text \<open>
  Lines written to the logger. They are part of the model for selection and
  for loading, where the outcome that reaches the caller is also told by the log.
\<close>

datatype log_level = Debug | Info | Warn | Err | Success

type_synonym log_entry = "log_level \<times> string"

fun pingProxy_log :: "ProxyInfo \<Rightarrow> probe \<Rightarrow> log_entry list" where
  "pingProxy_log prx (ProbeResponded status body elapsed) =
     (if status = 200 \<and> body then []
      else [(Err, ''Proxy '' @ proxyKey prx @ '' failed '' @ protocol prx @ '' test'')])"
| "pingProxy_log prx (ProbeThrew errorMsg) =
     [(Warn, proxyKey prx @ '' failed with '' @ protocol prx @ '': '' @ errorMsg),
      (Err, ''Proxy '' @ proxyKey prx @ '' failed '' @ protocol prx @ '' test'')]"

text \<open>
  The fields of the manager that the modelled operations read or write;
  \<open>testCount\<close> is \<^verbatim>\<open>options.testCount\<close>.
\<close>

record ProxyManager =
  proxies :: "ProxyInfo list"
  bestProxy :: "ProxyInfo option"
  currentProxy :: "ProxyInfo option"
  proxyHealthScores :: "string \<rightharpoonup> int"
  testCount :: int

text \<open>The manager after construction and loading of the pool \<open>ps\<close>.\<close>

definition new_manager :: "ProxyInfo list \<Rightarrow> int \<Rightarrow> ProxyManager" where
  "new_manager ps tc =
     \<lparr>proxies = ps, bestProxy = None, currentProxy = None,
      proxyHealthScores = Map.empty, testCount = tc\<rparr>"

text \<open>\<^verbatim>\<open>this.proxyHealthScores.get(key) || 0\<close>.\<close>

definition healthScore :: "(string \<rightharpoonup> int) \<Rightarrow> string \<Rightarrow> int" where
  "healthScore m k = (case m k of None \<Rightarrow> 0 | Some v \<Rightarrow> v)"

subsection \<open>Loading the pool: parseProxy and loadProxiesFromFile\<close>

text \<open>
  \<^verbatim>\<open>new URL(s)\<close> is a parameter \<open>U\<close> of the parser: it throws or gives the
  protocol, the host name and the port text of the line.
\<close>

record url =
  url_protocol :: string
  url_hostname :: string
  url_port :: string

text \<open>Lines 145-150 of \<open>parseProxy\<close>: the checks on the two parts.\<close>

definition checkParts :: "string \<Rightarrow> string \<Rightarrow> string \<Rightarrow> ProxyInfo option" where
  "checkParts h portText proto =
     (case parseInt portText of
        None \<Rightarrow> None
      | Some n \<Rightarrow>
          if h = [] \<or> n < 1 \<or> n > 65535 then None
          else Some \<lparr>host = h, port = n, protocol = proto, responseTime = None\<rparr>)"

text \<open>\<open>parseProxy\<close> (lines 133-151): \<open>Inl\<close> when \<^verbatim>\<open>new URL\<close> throws, \<open>Inr None\<close> for null.\<close>

definition parseProxy ::
  "(string \<Rightarrow> exn + url) \<Rightarrow> string \<Rightarrow> string \<Rightarrow> exn + ProxyInfo option" where
  "parseProxy U proxyString proto =
     (if js_includes ''://'' proxyString
      then (case U proxyString of
              Inl e \<Rightarrow> Inl e
            | Inr u \<Rightarrow>
                Inr (checkParts (url_hostname u) (url_port u)
                       (js_replace_first (CHR '':'') (url_protocol u))))
      else (case js_split (CHR '':'') proxyString of
              [h, portText] \<Rightarrow> Inr (checkParts h portText proto)
            | _ \<Rightarrow> Inr None))"

text \<open>
  The loop of \<open>loadProxiesFromFile\<close> (lines 88-93) inside its \<^verbatim>\<open>try\<close>: a
  throwing line ends the loop, and what was collected before it is kept.
\<close>

fun loadLines ::
  "(string \<Rightarrow> exn + url) \<Rightarrow> string \<Rightarrow> string list \<Rightarrow> ProxyInfo list
     \<Rightarrow> exn option \<times> ProxyInfo list" where
  "loadLines U proto [] acc = (None, acc)"
| "loadLines U proto (line # rest) acc =
     (case parseProxy U (js_trim line) proto of
        Inl e \<Rightarrow> (Some e, acc)
      | Inr None \<Rightarrow> loadLines U proto rest acc
      | Inr (Some p) \<Rightarrow> loadLines U proto rest (acc @ [p]))"







subsection \<open>Selection: findBestProxy and getWorkingProxy\<close>

text \<open>
  \<open>findBestProxy\<close> (lines 217-249). The shuffled copy of the pool is an input
  (\<open>shuffled\<close>), as is the outcome of the i-th probe (\<open>pings i\<close>). The sort by
  response time is stable, so \<^verbatim>\<open>results[0]\<close> is the first fastest responder.
\<close>

fun probeAll :: "ProxyInfo list \<Rightarrow> nat \<Rightarrow> (nat \<Rightarrow> probe) \<Rightarrow> (ProxyInfo \<times> int) list" where
  "probeAll [] i pings = []"
| "probeAll (prx # rest) i pings =
     (let rt = pingProxy prx (pings i)
      in (if rt > 0 then [(prx, rt)] else [])
         @ probeAll rest (Suc i) pings)"

fun probeAll_log :: "ProxyInfo list \<Rightarrow> nat \<Rightarrow> (nat \<Rightarrow> probe) \<Rightarrow> log_entry list" where
  "probeAll_log [] i pings = []"
| "probeAll_log (prx # rest) i pings =
     pingProxy_log prx (pings i) @ probeAll_log rest (Suc i) pings"

definition findBestProxy ::
  "ProxyManager \<Rightarrow> ProxyInfo list \<Rightarrow> (nat \<Rightarrow> probe) \<Rightarrow> log_entry list \<times> ProxyManager" where
  "findBestProxy s shuffled pings =
     (if proxies s = [] then ([], s)
      else
        let n = min (testCount s) (int (length (proxies s)));
            testProxies = take (nat n) shuffled;
            results = probeAll testProxies 0 pings;
            log1 = [(Debug, ''Testing proxies for speed...''),
                    (Debug, ''Testing '' @ string_of_int n @ '' proxies for speed'')]
                   @ probeAll_log testProxies 0 pings
        in (case sort_key snd results of
              [] \<Rightarrow> (log1 @ [(Err, ''No working proxies found'')], s)
            | (prx, t) # _ \<Rightarrow>
                let best = prx\<lparr>responseTime := Some t\<rparr>
                in (log1 @ [(Info, ''Best proxy selected: '' @ proxyKey best
                                   @ '' ('' @ string_of_int t @ ''ms)'')],
                    s\<lparr>bestProxy := Some best\<rparr>)))"

text \<open>
  \<open>getWorkingProxy\<close> (lines 251-272): the returned descriptor, the log lines
  written, and the manager afterwards. \<^verbatim>\<open>this.proxies[0]\<close> is read in the
  branch where the pool is known to be non-empty.
\<close>

definition getWorkingProxy ::
  "ProxyManager \<Rightarrow> ProxyInfo list \<Rightarrow> (nat \<Rightarrow> probe)
     \<Rightarrow> ProxyInfo option \<times> log_entry list \<times> ProxyManager" where
  "getWorkingProxy s shuffled pings =
     (case proxies s of
        [] \<Rightarrow> (None, [(Warn, ''No proxies available'')], s)
      | fallback # _ \<Rightarrow>
          let (log1, s1) = (if bestProxy s = None then findBestProxy s shuffled pings
                            else ([], s))
          in (case bestProxy s1 of
                Some best \<Rightarrow>
                  (Some best,
                   log1 @ [(Info, ''Using best proxy: '' @ proxyKey best)],
                   s1\<lparr>currentProxy := Some best\<rparr>)
              | None \<Rightarrow>
                  (Some fallback,
                   log1 @ [(Warn, ''Using fallback proxy (testing failed)''),
                           (Info, ''Using fallback proxy: '' @ proxyKey fallback)],
                   s1\<lparr>currentProxy := Some fallback\<rparr>)))"

subsection \<open>Health tracking: switchToNextProxy and testHttpConnectivity\<close>

text \<open>
  The comparator of lines 307-317 orders by score descending, then by
  \<^verbatim>\<open>responseTime || 99999\<close> ascending; \<^verbatim>\<open>Array.prototype.sort\<close> is stable.
\<close>

definition responseTimeOr :: "ProxyInfo \<Rightarrow> int" where
  "responseTimeOr p = (case responseTime p of None \<Rightarrow> 99999 | Some t \<Rightarrow> if t = 0 then 99999 else t)"

definition sortCandidates :: "(string \<rightharpoonup> int) \<Rightarrow> ProxyInfo list \<Rightarrow> ProxyInfo list" where
  "sortCandidates m ps = sort_key (\<lambda>p. (- healthScore m (proxyKey p), responseTimeOr p)) ps"

text \<open>The loop of lines 319-338 over the candidates still to be tried; \<open>i\<close> counts the probes.\<close>

fun switchLoop ::
  "ProxyInfo list \<Rightarrow> nat \<Rightarrow> (nat \<Rightarrow> probe) \<Rightarrow> ProxyManager \<Rightarrow> ProxyInfo option \<times> ProxyManager" where
  "switchLoop [] i pings s = (None, s)"
| "switchLoop (candidateProxy # rest) i pings s =
     (let rt = pingProxy candidateProxy (pings i);
          key = proxyKey candidateProxy
      in if rt > 0 \<and> rt < 8000
         then (Some candidateProxy,
               s\<lparr>proxyHealthScores := (proxyHealthScores s)(key \<mapsto> healthScore (proxyHealthScores s) key + 10),
                 currentProxy := Some candidateProxy\<rparr>)
         else switchLoop rest (Suc i) pings
               (s\<lparr>proxyHealthScores :=
                    (proxyHealthScores s)(key \<mapsto> max 0 (healthScore (proxyHealthScores s) key - 5))\<rparr>))"

definition switchToNextProxy ::
  "ProxyManager \<Rightarrow> (nat \<Rightarrow> probe) \<Rightarrow> ProxyInfo option \<times> ProxyManager" where
  "switchToNextProxy s pings =
     (if proxies s = [] then (None, s)
      else
        let currentKey = map_option proxyKey (currentProxy s);
            availableProxies = filter (\<lambda>p. Some (proxyKey p) \<noteq> currentKey) (proxies s)
        in if availableProxies = [] then (None, s)
           else switchLoop (take 3 (sortCandidates (proxyHealthScores s) availableProxies)) 0 pings s)"

text \<open>
  \<open>testHttpConnectivity\<close> (lines 516-559). The request answers with a status
  or throws. Without a current proxy the \<^verbatim>\<open>catch\<close> block itself fails on
  \<^verbatim>\<open>this.currentProxy!.host\<close>, which is a \<open>TypeError\<close> for the caller.
\<close>

datatype http_check = HttpThrew | HttpResponded int

definition testHttpConnectivity :: "ProxyManager \<Rightarrow> http_check \<Rightarrow> (exn + bool) \<times> ProxyManager" where
  "testHttpConnectivity s r =
     (case currentProxy s of
        None \<Rightarrow> (Inl (TypeError ''Cannot read properties of null''), s)
      | Some cur \<Rightarrow>
          let key = proxyKey cur; m = proxyHealthScores s
          in (case r of
                HttpResponded status \<Rightarrow>
                  let success = (status < 400)
                  in if success
                     then (Inr success, s\<lparr>proxyHealthScores := m(key \<mapsto> healthScore m key + 1)\<rparr>)
                     else (Inr success, s\<lparr>proxyHealthScores := m(key \<mapsto> max 0 (healthScore m key - 2))\<rparr>)
              | HttpThrew \<Rightarrow>
                  (Inr False, s\<lparr>proxyHealthScores := m(key \<mapsto> max 0 (healthScore m key - 3))\<rparr>)))"

text \<open>
  The operations of a manager that touch the pool state, as events: any
  interleaving of selection, switching, HTTP-level checks (from warm-up and
  keep-alive) and the assignment of \<open>setCurrentProxy\<close> is a list of them.
\<close>

datatype event =
    EvGetWorking "ProxyInfo list" "nat \<Rightarrow> probe"
  | EvSwitch "nat \<Rightarrow> probe"
  | EvHttpCheck http_check
  | EvSetCurrent ProxyInfo

fun step :: "ProxyManager \<Rightarrow> event \<Rightarrow> ProxyManager" where
  "step s (EvGetWorking shuffled pings) = snd (snd (getWorkingProxy s shuffled pings))"
| "step s (EvSwitch pings) = snd (switchToNextProxy s pings)"
| "step s (EvHttpCheck r) = snd (testHttpConnectivity s r)"
| "step s (EvSetCurrent p) = s\<lparr>currentProxy := Some p\<rparr>"

definition run :: "ProxyManager \<Rightarrow> event list \<Rightarrow> ProxyManager" where
  "run s evs = foldl step s evs"

subsection \<open>Quality signals\<close>

datatype quality = Excellent | Good | Poor | Critical

text \<open>
  \<open>getConnectionQuality\<close> (lines 561-573). The \<^verbatim>\<open>catch\<close> returning
  \<^verbatim>\<open>"critical"\<close> guards a call of \<open>pingProxy\<close>, which does not throw.
\<close>

definition getConnectionQuality :: "ProxyManager \<Rightarrow> probe \<Rightarrow> quality" where
  "getConnectionQuality s pr =
     (case currentProxy s of
        None \<Rightarrow> Excellent
      | Some cur \<Rightarrow>
          let rt = pingProxy cur pr
          in if rt < 2000 then Excellent
             else if rt < 5000 then Good
             else if rt < 10000 then Poor
             else Critical)"

text \<open>
  \<open>getConnectionAdaptiveTimeout\<close> (lines 361-375). Here too the
  \<^verbatim>\<open>catch\<close> (returning twice the base) guards only \<open>pingProxy\<close>. The
  quotient and the product are doubles: \<open>fl\<close> is the rounding of an exact
  result to the nearest double, whatever that function is. \<^verbatim>\<open>Math.max\<close>,
  \<^verbatim>\<open>Math.min\<close> and \<^verbatim>\<open>Math.round\<close> are exact on doubles.
\<close>

definition getConnectionAdaptiveTimeout ::
  "(rat \<Rightarrow> rat) \<Rightarrow> ProxyManager \<Rightarrow> rat \<Rightarrow> probe \<Rightarrow> rat" where
  "getConnectionAdaptiveTimeout fl s baseTimeout pr =
     (case currentProxy s of
        None \<Rightarrow> baseTimeout
      | Some cur \<Rightarrow>
          let rt = pingProxy cur pr
          in if rt > 0
             then let adaptiveMultiplier = max 1 (min 3 (fl (of_int rt / 2000)))
                  in of_int (js_round (fl (baseTimeout * adaptiveMultiplier)))
             else baseTimeout)"

section \<open>Concrete relays and managers for closed instances\<close>

definition relayA :: ProxyInfo where
  "relayA = \<lparr>host = ''10.0.0.1'', port = 8080, protocol = ''socks5'', responseTime = None\<rparr>"

definition relayB :: ProxyInfo where
  "relayB = \<lparr>host = ''10.0.0.2'', port = 1080, protocol = ''socks5'', responseTime = None\<rparr>"

definition managerA :: ProxyManager where
  "managerA = (new_manager [relayA, relayB] 5)\<lparr>currentProxy := Some relayA\<rparr>"

definition envOk :: init_env where
  "envOk = \<lparr>dns_now1 = 1000, dns_lookup = (\<lambda>d. Inr ''203.0.113.7''), dns_now2 = 1040,
            security = Inr auditOk, quality_tcp = SockConnect 120,
            quality_sample = (\<lambda>i. (GetStatus 200, 300)), quality_now = 1100, used_now = 4000,
            pool_check = (\<lambda>i. True), test_handshake = SockConnect 150,
            test_chunked = GetStatus 200, test_seed = (\<lambda>i. GetStatus 200)\<rparr>"

definition quantum0 :: QuantumProxyManager where
  "quantum0 = new_quantum ''act.playcfl.com''"

definition quantumCached :: QuantumProxyManager where
  "quantumCached =
     quantum0\<lparr>dnsCache := [''act.playcfl.com'' \<mapsto> \<lparr>ip = ''203.0.113.7'', expires = 301040\<rparr>]\<rparr>"

definition connQ :: SmartConnection where
  "connQ = \<lparr>proxy = relayQ,
            metrics = measureConnectionQuality (SockConnect 120) (\<lambda>i. (GetStatus 200, 300)) 1100,
            axiosInstance = SecureOptimizedInstance relayQ, lastUsed = 4000,
            connectionPool = [], securityMetrics = Some auditOk\<rparr>"

subsection \<open>The updates of the health map\<close>

text \<open>
  One update of the health map, by what caused it: the score of one key
  (0 when absent) is raised by 10 or 1, or lowered by 5, 2 or 3 and floored
  at 0; every other key keeps its entry.
\<close>

datatype mutation_kind = SwitchAccepted | SwitchRejected | HttpSucceeded | HttpBadStatus | HttpFailed

inductive score_mutation ::
  "mutation_kind \<Rightarrow> string \<Rightarrow> (string \<rightharpoonup> int) \<Rightarrow> (string \<rightharpoonup> int) \<Rightarrow> bool" where
  accepted: "score_mutation SwitchAccepted k m (m(k \<mapsto> healthScore m k + 10))"
| rejected: "score_mutation SwitchRejected k m (m(k \<mapsto> max 0 (healthScore m k - 5)))"
| http_ok: "score_mutation HttpSucceeded k m (m(k \<mapsto> healthScore m k + 1))"
| http_status: "score_mutation HttpBadStatus k m (m(k \<mapsto> max 0 (healthScore m k - 2)))"
| http_failed: "score_mutation HttpFailed k m (m(k \<mapsto> max 0 (healthScore m k - 3)))"

definition managerB :: ProxyManager where
  "managerB = (new_manager [relayA, relayB] 5)\<lparr>currentProxy := Some relayB\<rparr>"

fun http_kind :: "http_check \<Rightarrow> mutation_kind" where
  "http_kind HttpThrew = HttpFailed"
| "http_kind (HttpResponded status) = (if status < 400 then HttpSucceeded else HttpBadStatus)"

definition managerB1 :: ProxyManager where
  "managerB1 = snd (testHttpConnectivity managerB (HttpResponded 200))"

subsection \<open>Lines and ports for the parser\<close>

text \<open>Decimal digits, and strings made of them only.\<close>

definition is_decimal_digit :: "char \<Rightarrow> bool" where
  "is_decimal_digit c = (c \<in> set ''0123456789'')"

definition decimal :: "string \<Rightarrow> bool" where
  "decimal s = (\<forall>c \<in> set s. is_decimal_digit c)"

text \<open>A stand-in for \<^verbatim>\<open>new URL\<close> that rejects every string; lines without a scheme never reach it.\<close>

definition noUrl :: "string \<Rightarrow> exn + url" where
  "noUrl s = Inl (TypeError ''Invalid URL'')"


section \<open>Verified properties: relay selection\<close>

lemma probeAll_empty:
  "(probeAll ps i pings = []) = (\<forall>j < length ps. pingProxy (ps ! j) (pings (i + j)) \<le> 0)"
proof (induction ps arbitrary: i)
  case Nil
  show ?case by simp
next
  case (Cons p ps)
  have "(\<forall>j < Suc (length ps). pingProxy ((p # ps) ! j) (pings (i + j)) \<le> 0) =
        (pingProxy p (pings i) \<le> 0 \<and> (\<forall>j < length ps. pingProxy (ps ! j) (pings (Suc i + j)) \<le> 0))"
    by (auto simp: less_Suc_eq_0_disj)
  with Cons.IH [of "Suc i"] show ?case
    by (auto simp: Let_def)
qed

lemma findBestProxy_all_fail:
  assumes "bestProxy s = None"
    and "\<forall>j < length (take (nat (min (testCount s) (int (length (proxies s))))) shuffled).
           pingProxy (shuffled ! j) (pings j) \<le> 0"
  shows "bestProxy (snd (findBestProxy s shuffled pings)) = None"
proof (cases "proxies s = []")
  case True
  with assms show ?thesis by (simp add: findBestProxy_def)
next
  case False
  let ?tp = "take (nat (min (testCount s) (int (length (proxies s))))) shuffled"
  have "\<forall>j < length ?tp. pingProxy (?tp ! j) (pings (0 + j)) \<le> 0"
    using assms(2) by simp
  then have "probeAll ?tp 0 pings = []"
    by (simp only: probeAll_empty)
  with False assms(1) show ?thesis
    by (simp add: findBestProxy_def Let_def)
qed

lemma getWorkingProxy_None_iff:
  "(fst (getWorkingProxy s shuffled pings) = None) = (proxies s = [])"
  by (simp add: getWorkingProxy_def Let_def split: list.splits prod.splits option.splits)

text \<open>
  Claim C1. \<open>getWorkingProxy\<close> returns null exactly when the pool is empty, and
  then logs the warning "No proxies available" and nothing else; for a
  non-empty pool it returns a descriptor, and when no best relay is known and
  every probed candidate fails (no probe gives a positive time) it returns
  the relay at pool index 0 after the fallback warning. The model has no
  exceptional outcome: no statement of the function can throw. The statement
  holds for every list \<open>shuffled\<close>, so for every permutation of the pool.
\<close>

theorem getWorkingProxy_null_iff_empty:
  "(fst (getWorkingProxy s shuffled pings) = None \<longleftrightarrow> proxies s = []) \<and>
   (proxies s = [] \<longrightarrow>
      fst (snd (getWorkingProxy s shuffled pings)) = [(Warn, ''No proxies available'')]) \<and>
   (proxies s \<noteq> [] \<longrightarrow> (\<exists>p. fst (getWorkingProxy s shuffled pings) = Some p)) \<and>
   (proxies s \<noteq> [] \<longrightarrow> bestProxy s = None \<longrightarrow>
      (\<forall>j < length (take (nat (min (testCount s) (int (length (proxies s))))) shuffled).
           pingProxy (shuffled ! j) (pings j) \<le> 0) \<longrightarrow>
      fst (getWorkingProxy s shuffled pings) = Some (proxies s ! 0) \<and>
      (Warn, ''Using fallback proxy (testing failed)'')
        \<in> set (fst (snd (getWorkingProxy s shuffled pings))))"
proof (intro conjI impI)
  show "(fst (getWorkingProxy s shuffled pings) = None) = (proxies s = [])"
    by (rule getWorkingProxy_None_iff)
next
  assume "proxies s = []"
  then show "fst (snd (getWorkingProxy s shuffled pings)) = [(Warn, ''No proxies available'')]"
    by (simp add: getWorkingProxy_def)
next
  assume "proxies s \<noteq> []"
  then have "fst (getWorkingProxy s shuffled pings) \<noteq> None"
    by (simp add: getWorkingProxy_None_iff)
  then show "\<exists>p. fst (getWorkingProxy s shuffled pings) = Some p"
    by auto
next
  assume ne: "proxies s \<noteq> []" and nb: "bestProxy s = None"
    and fail: "\<forall>j < length (take (nat (min (testCount s) (int (length (proxies s))))) shuffled).
           pingProxy (shuffled ! j) (pings j) \<le> 0"
  obtain l s1 where f: "findBestProxy s shuffled pings = (l, s1)"
    by (cases "findBestProxy s shuffled pings")
  from findBestProxy_all_fail [OF nb fail] f have b1: "bestProxy s1 = None"
    by simp
  from ne obtain p ps where ps: "proxies s = p # ps"
    by (cases "proxies s") auto
  from ps nb f b1 show "fst (getWorkingProxy s shuffled pings) = Some (proxies s ! 0)"
    by (simp add: getWorkingProxy_def)
  from ps nb f b1
  show "(Warn, ''Using fallback proxy (testing failed)'')
          \<in> set (fst (snd (getWorkingProxy s shuffled pings)))"
    by (simp add: getWorkingProxy_def)
qed

theorem getWorkingProxy_null_iff_empty_witness:
  "fst (getWorkingProxy (new_manager [] 5) [] (\<lambda>i. ProbeThrew ''ETIMEDOUT'')) = None \<and>
   fst (snd (getWorkingProxy (new_manager [] 5) [] (\<lambda>i. ProbeThrew ''ETIMEDOUT'')))
     = [(Warn, ''No proxies available'')] \<and>
   fst (getWorkingProxy (new_manager [relayA, relayB] 5) [relayB, relayA]
          (\<lambda>i. ProbeThrew ''ETIMEDOUT'')) = Some relayA"
  using getWorkingProxy_null_iff_empty [of "new_manager [] 5" "[]" "\<lambda>i. ProbeThrew ''ETIMEDOUT''"]
    getWorkingProxy_null_iff_empty [of "new_manager [relayA, relayB] 5" "[relayB, relayA]"
      "\<lambda>i. ProbeThrew ''ETIMEDOUT''"]
  by (simp add: new_manager_def)

section \<open>Verified properties: quality signals\<close>

text \<open>
  Without a positive probe time the function returns the base, unchanged,
  whatever the rounding of doubles is.
\<close>

lemma adaptive_timeout_no_measurement:
  "currentProxy s = Some cur \<Longrightarrow> pingProxy cur pr \<le> 0 \<Longrightarrow>
     getConnectionAdaptiveTimeout fl s base pr = base"
  by (simp add: getConnectionAdaptiveTimeout_def)

text \<open>
  Claim C2 at a failing input. The current relay's probe throws, \<open>pingProxy\<close>
  turns that into -1, and with base 1000 the function returns 1000, where the
  claim (and the \<^verbatim>\<open>catch\<close> branch of the function) says 2000.
\<close>

theorem adaptive_timeout_failed_probe:
  "getConnectionAdaptiveTimeout fl managerA 1000 (ProbeThrew ''ETIMEDOUT'') = 1000"
  by (simp add: getConnectionAdaptiveTimeout_def managerA_def new_manager_def)

text \<open>
  Claim C3 at a failing input. The current relay's probe throws, \<open>pingProxy\<close>
  turns that into -1, and -1 is below 2000: the quality reported is excellent,
  where the claim (and the \<^verbatim>\<open>catch\<close> branch of the function) says critical.
\<close>

theorem getConnectionQuality_failed_probe:
  "getConnectionQuality managerA (ProbeThrew ''ETIMEDOUT'') = Excellent"
  by (simp add: getConnectionQuality_def managerA_def new_manager_def)

text \<open>For a measured time the thresholds are the ones of the claim.\<close>

lemma getConnectionQuality_measured:
  "currentProxy s = Some cur \<Longrightarrow> pingProxy cur pr = t \<Longrightarrow>
     getConnectionQuality s pr =
       (if t < 2000 then Excellent else if t < 5000 then Good
        else if t < 10000 then Poor else Critical)"
  by (simp add: getConnectionQuality_def)

section \<open>Verified properties: the quantum connection optimizer\<close>

text \<open>
  Claim C8. While the cached entry of a domain expires in the future, a
  lookup returns its address as it is, issues no resolution and leaves the
  manager unchanged. Otherwise (no entry, or an entry whose expiry is not in
  the future) a resolution is issued: its answer is returned and cached with
  expiry \<open>now2 + dnsCacheTTL\<close>; if it fails and an entry exists, the entry's
  address is returned; if it fails and none exists, the error is the result.
  After a successful resolution, every lookup before that new expiry returns
  the same address without resolving, whatever the resolver would say.
\<close>

theorem quantumDNSResolve_cache:
  "(\<forall>c. dnsCache s d = Some c \<longrightarrow> now1 < expires c \<longrightarrow>
      quantumDNSResolve s d now1 L now2 = (Inr (ip c), [], s)) \<and>
   ((dnsCache s d = None \<or> (\<exists>c. dnsCache s d = Some c \<and> expires c \<le> now1)) \<longrightarrow>
      (\<forall>address. L d = Inr address \<longrightarrow>
         quantumDNSResolve s d now1 L now2 =
           (Inr address, [d],
            s\<lparr>dnsCache := (dnsCache s)(d \<mapsto> \<lparr>ip = address, expires = now2 + dnsCacheTTL s\<rparr>)\<rparr>)) \<and>
      (\<forall>e c. L d = Inl e \<longrightarrow> dnsCache s d = Some c \<longrightarrow>
         quantumDNSResolve s d now1 L now2 = (Inr (ip c), [d], s)) \<and>
      (\<forall>e. L d = Inl e \<longrightarrow> dnsCache s d = None \<longrightarrow>
         quantumDNSResolve s d now1 L now2 = (Inl e, [d], s))) \<and>
   (\<forall>s' address. quantumDNSResolve s d now1 L now2 = (Inr address, [d], s') \<longrightarrow>
      L d = Inr address \<longrightarrow>
      (\<forall>t L' t'. t < now2 + dnsCacheTTL s \<longrightarrow>
         quantumDNSResolve s' d t L' t' = (Inr address, [], s')))"
  by (auto simp: quantumDNSResolve_def Let_def split: option.splits sum.splits)

theorem quantumDNSResolve_cache_witness:
  "quantumDNSResolve quantum0 ''act.playcfl.com'' 1000 (\<lambda>d. Inr ''203.0.113.7'') 1040
     = (Inr ''203.0.113.7'', [''act.playcfl.com''], quantumCached) \<and>
   quantumDNSResolve quantumCached ''act.playcfl.com'' 2000 (\<lambda>d. Inl (SystemError ''ENOTFOUND'')) 2040
     = (Inr ''203.0.113.7'', [], quantumCached) \<and>
   quantumDNSResolve quantumCached ''act.playcfl.com'' 400000 (\<lambda>d. Inl (SystemError ''ENOTFOUND'')) 400040
     = (Inr ''203.0.113.7'', [''act.playcfl.com''], quantumCached) \<and>
   quantumDNSResolve quantum0 ''act.playcfl.com'' 1000 (\<lambda>d. Inl (SystemError ''ENOTFOUND'')) 1040
     = (Inl (SystemError ''ENOTFOUND''), [''act.playcfl.com''], quantum0)"
proof -
  let ?d = "''act.playcfl.com''"
  let ?c = "\<lparr>ip = ''203.0.113.7'', expires = 301040\<rparr>"
  let ?fail = "\<lambda>d::string. (Inl (SystemError ''ENOTFOUND'') :: exn + string)"
  let ?ok = "\<lambda>d::string. (Inr ''203.0.113.7'' :: exn + string)"
  have none: "dnsCache quantum0 ?d = None"
    by (simp add: quantum0_def new_quantum_def)
  have some: "dnsCache quantumCached ?d = Some ?c"
    by (simp add: quantumCached_def)
  have upd: "quantum0\<lparr>dnsCache := (dnsCache quantum0)(?d \<mapsto>
               \<lparr>ip = ''203.0.113.7'', expires = 1040 + dnsCacheTTL quantum0\<rparr>)\<rparr> = quantumCached"
    by (simp add: quantumCached_def quantum0_def new_quantum_def)
  have fresh: "(2000::int) < expires ?c"
    by simp
  have stale: "\<exists>c. dnsCache quantumCached ?d = Some c \<and> expires c \<le> (400000::int)"
    using some by simp
  have okd: "?ok ?d = Inr ''203.0.113.7''" and faild: "?fail ?d = Inl (SystemError ''ENOTFOUND'')"
    by simp_all
  note miss0 = quantumDNSResolve_cache
    [of quantum0 ?d 1000 ?ok 1040, THEN conjunct2, THEN conjunct1, rule_format, OF disjI1 [OF none]]
  from miss0 [THEN conjunct1, rule_format, OF okd]
  have a: "quantumDNSResolve quantum0 ?d 1000 ?ok 1040 = (Inr ''203.0.113.7'', [?d], quantumCached)"
    by (simp only: upd)
  from quantumDNSResolve_cache
    [of quantumCached ?d 2000 ?fail 2040, THEN conjunct1, rule_format, OF some fresh]
  have b: "quantumDNSResolve quantumCached ?d 2000 ?fail 2040 = (Inr ''203.0.113.7'', [], quantumCached)"
    by simp
  note miss1 = quantumDNSResolve_cache
    [of quantumCached ?d 400000 ?fail 400040, THEN conjunct2, THEN conjunct1, rule_format,
     OF disjI2 [OF stale]]
  from miss1 [THEN conjunct2, THEN conjunct1, rule_format, OF faild some]
  have c: "quantumDNSResolve quantumCached ?d 400000 ?fail 400040
             = (Inr ''203.0.113.7'', [?d], quantumCached)"
    by simp
  note miss2 = quantumDNSResolve_cache
    [of quantum0 ?d 1000 ?fail 1040, THEN conjunct2, THEN conjunct1, rule_format, OF disjI1 [OF none]]
  from miss2 [THEN conjunct2, THEN conjunct2, rule_format, OF faild none]
  have d: "quantumDNSResolve quantum0 ?d 1000 ?fail 1040 = (Inl (SystemError ''ENOTFOUND''), [?d], quantum0)"
    by simp
  from a b c d show ?thesis by (intro conjI)
qed

lemma concat_map_short:
  "(\<And>x. length (f x) \<le> 1) \<Longrightarrow> length (concat (map f xs)) \<le> length xs"
proof (induction xs)
  case Nil
  show ?case by simp
next
  case (Cons x xs)
  from Cons.prems [of x] Cons.IH [OF Cons.prems] show ?case by simp
qed

lemma collectSamples_length: "length (collectSamples sample) \<le> 5"
proof -
  have "length (collectSamples sample) \<le> length [0..<5::nat]"
    unfolding collectSamples_def by (rule concat_map_short) simp
  then show ?thesis by simp
qed

lemma collectSamples_nonneg:
  assumes "\<forall>i<5. testHTTPConnectivity (fst (sample i)) \<longrightarrow> 0 \<le> snd (sample i)"
  shows "\<forall>x \<in> set (collectSamples sample). 0 \<le> x"
  using assms by (auto simp: collectSamples_def split: if_splits)

lemma totalJitter_nonneg: "0 \<le> totalJitter xs"
  by (induction xs rule: totalJitter.induct) simp_all

lemma calculateJitter_nonneg: "0 \<le> calculateJitter xs"
  by (simp add: calculateJitter_def totalJitter_nonneg)

lemma js_round_range: "0 \<le> x \<Longrightarrow> x \<le> 100 \<Longrightarrow> 0 \<le> js_round x \<and> js_round x \<le> 100"
  unfolding js_round_def by linarith

lemma stability_formula_range:
  fixes lat jit :: rat and n :: nat
  assumes "0 \<le> lat" "0 \<le> jit" "1 \<le> n" "n \<le> 5"
  shows "0 \<le> (max 0 (100 - lat / 10) + max 0 (100 - jit * 10) + (100 - ((5 - of_nat n) / 5) * 100)) / 3"
    and "(max 0 (100 - lat / 10) + max 0 (100 - jit * 10) + (100 - ((5 - of_nat n) / 5) * 100)) / 3 \<le> 100"
proof -
  define A where "A = max 0 (100 - lat / 10)"
  define B where "B = max 0 (100 - jit * 10)"
  define C where "C = 100 - ((5 - (of_nat n :: rat)) / 5) * 100"
  have a: "0 \<le> A" "A \<le> 100"
    using assms(1) by (simp_all add: A_def)
  have b: "0 \<le> B" "B \<le> 100"
    using assms(2) by (simp_all add: B_def)
  have n1: "(1::rat) \<le> of_nat n" and n5: "(of_nat n :: rat) \<le> 5"
    using assms(3,4) by simp_all
  have ceq: "C = 20 * of_nat n"
    by (simp add: C_def field_simps)
  have c: "0 \<le> C" "C \<le> 100"
    using n1 n5 unfolding ceq by linarith+
  have "0 \<le> (A + B + C) / 3"
    using a(1) b(1) c(1) by simp
  then show "0 \<le> (max 0 (100 - lat / 10) + max 0 (100 - jit * 10) + (100 - ((5 - of_nat n) / 5) * 100)) / 3"
    by (simp only: A_def B_def C_def)
  have "A + B + C \<le> 300"
    using a(2) b(2) c(2) by linarith
  then have "(A + B + C) / 3 \<le> 100"
    by simp
  then show "(max 0 (100 - lat / 10) + max 0 (100 - jit * 10) + (100 - ((5 - of_nat n) / 5) * 100)) / 3 \<le> 100"
    by (simp only: A_def B_def C_def)
qed

text \<open>
  Claim C9. When the elapsed times of the successful protocol-level samples
  are not negative, the stability of \<open>measureConnectionQuality\<close> is an integer
  between 0 and 100. It is 0 when the TCP check fails, and 10 when the TCP
  check passes and all five samples fail (the function returns early there
  and computes no loss score).
\<close>

theorem stability_in_range:
  assumes "\<forall>i<5. testHTTPConnectivity (fst (sample i)) \<longrightarrow> 0 \<le> snd (sample i)"
  shows "(\<exists>n::int. stability (measureConnectionQuality tcp sample now) = of_int n \<and> 0 \<le> n \<and> n \<le> 100) \<and>
         (\<not> testTCPHandshake tcp \<longrightarrow> stability (measureConnectionQuality tcp sample now) = 0) \<and>
         (testTCPHandshake tcp \<longrightarrow> (\<forall>i<5. \<not> testHTTPConnectivity (fst (sample i))) \<longrightarrow>
            stability (measureConnectionQuality tcp sample now) = 10)"
proof (intro conjI impI)
  show "\<exists>n::int. stability (measureConnectionQuality tcp sample now) = of_int n \<and> 0 \<le> n \<and> n \<le> 100"
  proof (cases "testTCPHandshake tcp")
    case False
    then have "stability (measureConnectionQuality tcp sample now) = of_int 0"
      by (simp add: measureConnectionQuality_def)
    then show ?thesis by (intro exI [of _ 0]) simp
  next
    case True
    show ?thesis
    proof (cases "collectSamples sample = []")
      case True
      with \<open>testTCPHandshake tcp\<close>
      have "stability (measureConnectionQuality tcp sample now) = of_int 10"
        by (simp add: measureConnectionQuality_def)
      then show ?thesis by (intro exI [of _ 10]) simp
    next
      case False
      let ?xs = "collectSamples sample"
      let ?lat = "sum_list ?xs / of_nat (length ?xs)"
      let ?v = "(max 0 (100 - ?lat / 10) + max 0 (100 - calculateJitter ?xs * 10)
                 + (100 - ((5 - of_nat (length ?xs)) / 5) * 100)) / 3"
      have st: "stability (measureConnectionQuality tcp sample now) = of_int (js_round ?v)"
        using \<open>testTCPHandshake tcp\<close> False by (simp add: measureConnectionQuality_def Let_def)
      have "0 \<le> sum_list ?xs"
        using collectSamples_nonneg [OF assms] by (intro sum_list_nonneg) simp
      then have lat: "0 \<le> ?lat" by simp
      have len: "1 \<le> length ?xs" "length ?xs \<le> 5"
        using False collectSamples_length [of sample] by (simp_all add: Suc_le_eq)
      from stability_formula_range [OF lat calculateJitter_nonneg len]
      have "0 \<le> ?v" "?v \<le> 100" by blast+
      then have "0 \<le> js_round ?v \<and> js_round ?v \<le> 100"
        by (rule js_round_range)
      with st show ?thesis by blast
    qed
  qed
next
  assume "\<not> testTCPHandshake tcp"
  then show "stability (measureConnectionQuality tcp sample now) = 0"
    by (simp add: measureConnectionQuality_def)
next
  assume t: "testTCPHandshake tcp" and f: "\<forall>i<5. \<not> testHTTPConnectivity (fst (sample i))"
  from f have "collectSamples sample = []"
    by (simp add: collectSamples_def)
  with t show "stability (measureConnectionQuality tcp sample now) = 10"
    by (simp add: measureConnectionQuality_def)
qed

theorem stability_in_range_witness:
  "(\<exists>n::int. stability (measureConnectionQuality (SockConnect 120) (\<lambda>i. (GetStatus 200, 300)) 1100) = of_int n
       \<and> 0 \<le> n \<and> n \<le> 100) \<and>
   stability (measureConnectionQuality SockTimeout (\<lambda>i. (GetStatus 200, 300)) 1100) = 0 \<and>
   stability (measureConnectionQuality (SockConnect 120) (\<lambda>i. (GetThrew, 5000)) 1100) = 10"
proof -
  have h1: "\<forall>i<5. testHTTPConnectivity (fst (GetStatus 200, 300::int)) \<longrightarrow> 0 \<le> snd (GetStatus 200, 300::int)"
    by simp
  have h2: "\<forall>i<5. testHTTPConnectivity (fst (GetThrew, 5000::int)) \<longrightarrow> 0 \<le> snd (GetThrew, 5000::int)"
    by simp
  have t0: "\<not> testTCPHandshake SockTimeout" and t1: "testTCPHandshake (SockConnect 120)"
    by (simp_all add: testTCPHandshake_def)
  have f: "\<forall>i<5. \<not> testHTTPConnectivity (fst (GetThrew, 5000::int))"
    by simp
  from stability_in_range [of "\<lambda>i. (GetStatus 200, 300)" "SockConnect 120" 1100, OF h1]
  have a: "\<exists>n::int. stability (measureConnectionQuality (SockConnect 120) (\<lambda>i. (GetStatus 200, 300)) 1100) = of_int n
       \<and> 0 \<le> n \<and> n \<le> 100"
    by (rule conjunct1)
  from stability_in_range [of "\<lambda>i. (GetStatus 200, 300)" SockTimeout 1100, OF h1] t0
  have b: "stability (measureConnectionQuality SockTimeout (\<lambda>i. (GetStatus 200, 300)) 1100) = 0"
    by simp
  from stability_in_range [of "\<lambda>i. (GetThrew, 5000)" "SockConnect 120" 1100, OF h2] t1 f
  have c: "stability (measureConnectionQuality (SockConnect 120) (\<lambda>i. (GetThrew, 5000)) 1100) = 10"
    by simp
  from a b c show ?thesis by (intro conjI)
qed

lemma seeding_all_ok: "performConnectionSeeding (\<lambda>i. GetStatus 200)"
  by (simp add: performConnectionSeeding_def)

lemma test_envOk:
  "performQuantumConnectivityTest (SockConnect 150) (GetStatus 200) (\<lambda>i. GetStatus 200)"
  by (simp add: performQuantumConnectivityTest_def seeding_all_ok)

text \<open>
  Claim C7 as stated fails: when every validation request of the pool fails
  and everything else succeeds, the pool is empty, the function returns true
  and the connection with the empty pool is the current one.
\<close>

theorem initialize_empty_pool_counterexample:
  "fst (initializeQuantumConnection quantum0 relayQ (envOk\<lparr>pool_check := \<lambda>i. False\<rparr>)) = True \<and>
   map_option connectionPool
     (currentConnection (snd (initializeQuantumConnection quantum0 relayQ (envOk\<lparr>pool_check := \<lambda>i. False\<rparr>))))
     = Some []"
  by (simp add: initializeQuantumConnection_def quantumDNSResolve_def quantum0_def new_quantum_def
        envOk_def test_envOk createConnectionPool_def Let_def)

text \<open>With an empty pool \<open>getOptimizedConnection\<close> hands out the connection's own client.\<close>

lemma getOptimizedConnection_empty_pool:
  "currentConnection s = Some c \<Longrightarrow> connectionPool c = [] \<Longrightarrow>
     fst (getOptimizedConnection s now) = Some (axiosInstance c)"
  by (simp add: getOptimizedConnection_def)

lemma quantumDNSResolve_keeps:
  "quantumDNSResolve s d n1 L n2 = (r, q, s1) \<Longrightarrow>
     currentConnection s1 = currentConnection s \<and> connections s1 = connections s \<and>
     connectionPoolSize s1 = connectionPoolSize s"
  by (auto simp: quantumDNSResolve_def Let_def split: if_splits sum.splits option.splits)

text \<open>
  Claim C7, amended. \<open>initializeQuantumConnection\<close> returns false whenever
  the name resolution of the destination fails with no cached entry and
  whenever the three-stage acceptance test fails; on every path that returns
  false the current connection and the table of connections are as before;
  and the outcome of the pool validation requests, so the size of the pool,
  has no influence on the returned flag.
\<close>

theorem initialize_failure_paths:
  "(\<forall>e. dnsCache s (targetDomain s) = None \<longrightarrow> dns_lookup env (targetDomain s) = Inl e \<longrightarrow>
      fst (initializeQuantumConnection s cfg env) = False) \<and>
   (\<not> performQuantumConnectivityTest (test_handshake env) (test_chunked env) (test_seed env) \<longrightarrow>
      fst (initializeQuantumConnection s cfg env) = False) \<and>
   (fst (initializeQuantumConnection s cfg env) = False \<longrightarrow>
      currentConnection (snd (initializeQuantumConnection s cfg env)) = currentConnection s \<and>
      connections (snd (initializeQuantumConnection s cfg env)) = connections s) \<and>
   (\<forall>check. fst (initializeQuantumConnection s cfg (env\<lparr>pool_check := check\<rparr>))
             = fst (initializeQuantumConnection s cfg env))"
proof -
  obtain r q s1 where d:
    "quantumDNSResolve s (targetDomain s) (dns_now1 env) (dns_lookup env) (dns_now2 env) = (r, q, s1)"
    by (cases "quantumDNSResolve s (targetDomain s) (dns_now1 env) (dns_lookup env) (dns_now2 env)")
  note k = quantumDNSResolve_keeps [OF d]
  have a: "\<forall>e. dnsCache s (targetDomain s) = None \<longrightarrow> dns_lookup env (targetDomain s) = Inl e \<longrightarrow>
      fst (initializeQuantumConnection s cfg env) = False"
    by (auto simp: initializeQuantumConnection_def quantumDNSResolve_def)
  have b: "\<not> performQuantumConnectivityTest (test_handshake env) (test_chunked env) (test_seed env) \<longrightarrow>
      fst (initializeQuantumConnection s cfg env) = False"
    using d by (auto simp: initializeQuantumConnection_def Let_def split: sum.splits)
  have c: "fst (initializeQuantumConnection s cfg env) = False \<longrightarrow>
      currentConnection (snd (initializeQuantumConnection s cfg env)) = currentConnection s \<and>
      connections (snd (initializeQuantumConnection s cfg env)) = connections s"
    using d k by (auto simp: initializeQuantumConnection_def Let_def split: sum.splits if_splits)
  have e: "\<forall>check. fst (initializeQuantumConnection s cfg (env\<lparr>pool_check := check\<rparr>))
             = fst (initializeQuantumConnection s cfg env)"
    using d by (auto simp: initializeQuantumConnection_def Let_def split: sum.splits)
  from a b c e show ?thesis by blast
qed

theorem initialize_failure_paths_witness:
  "fst (initializeQuantumConnection quantum0 relayQ
          (envOk\<lparr>dns_lookup := \<lambda>d. Inl (SystemError ''ENOTFOUND'')\<rparr>)) = False \<and>
   fst (initializeQuantumConnection quantum0 relayQ (envOk\<lparr>test_chunked := GetThrew\<rparr>)) = False \<and>
   currentConnection (snd (initializeQuantumConnection quantum0 relayQ (envOk\<lparr>test_chunked := GetThrew\<rparr>)))
     = None"
proof -
  have 1: "dnsCache quantum0 (targetDomain quantum0) = None"
    by (simp add: quantum0_def new_quantum_def)
  have 2: "dns_lookup (envOk\<lparr>dns_lookup := \<lambda>d. Inl (SystemError ''ENOTFOUND'')\<rparr>) (targetDomain quantum0)
             = Inl (SystemError ''ENOTFOUND'')"
    by simp
  have 3: "\<not> performQuantumConnectivityTest (test_handshake (envOk\<lparr>test_chunked := GetThrew\<rparr>))
             (test_chunked (envOk\<lparr>test_chunked := GetThrew\<rparr>)) (test_seed (envOk\<lparr>test_chunked := GetThrew\<rparr>))"
    by (simp add: performQuantumConnectivityTest_def)
  have 4: "currentConnection quantum0 = None"
    by (simp add: quantum0_def new_quantum_def)
  from initialize_failure_paths
         [of quantum0 "envOk\<lparr>dns_lookup := \<lambda>d. Inl (SystemError ''ENOTFOUND'')\<rparr>" relayQ] 1 2
  have a: "fst (initializeQuantumConnection quantum0 relayQ
          (envOk\<lparr>dns_lookup := \<lambda>d. Inl (SystemError ''ENOTFOUND'')\<rparr>)) = False"
    by blast
  from initialize_failure_paths [of quantum0 "envOk\<lparr>test_chunked := GetThrew\<rparr>" relayQ] 3 4
  have "fst (initializeQuantumConnection quantum0 relayQ (envOk\<lparr>test_chunked := GetThrew\<rparr>)) = False"
    and "currentConnection (snd (initializeQuantumConnection quantum0 relayQ (envOk\<lparr>test_chunked := GetThrew\<rparr>)))
     = None"
    by simp_all
  with a show ?thesis by blast
qed

text \<open>
  Claim C10. \<open>performSecurityAudit\<close> reads the manager only (it has no access
  to the network in the model, as in the code): it throws when no connection
  is current or the current one has no security metrics, and otherwise
  reports the stored score, vulnerabilities and recommendations with the
  risk level LOW from 80, MEDIUM from 60, HIGH from 40 and CRITICAL below.
\<close>

theorem performSecurityAudit_snapshot:
  "(currentConnection s = None \<longrightarrow>
      performSecurityAudit s = Inl (Error ''No active connection to audit'')) \<and>
   (\<forall>c. currentConnection s = Some c \<longrightarrow> securityMetrics c = None \<longrightarrow>
      performSecurityAudit s = Inl (Error ''No security metrics available'')) \<and>
   (\<forall>c m. currentConnection s = Some c \<longrightarrow> securityMetrics c = Some m \<longrightarrow>
      (\<exists>r. performSecurityAudit s = Inr r \<and>
           score r = securityScore m \<and>
           audit_report.vulnerabilities r = SecureConnectionMetrics.vulnerabilities m \<and>
           audit_report.recommendations r = SecureConnectionMetrics.recommendations m \<and>
           (riskLevel r = ''LOW'' \<longleftrightarrow> 80 \<le> securityScore m) \<and>
           (riskLevel r = ''MEDIUM'' \<longleftrightarrow> 60 \<le> securityScore m \<and> securityScore m < 80) \<and>
           (riskLevel r = ''HIGH'' \<longleftrightarrow> 40 \<le> securityScore m \<and> securityScore m < 60) \<and>
           (riskLevel r = ''CRITICAL'' \<longleftrightarrow> securityScore m < 40)))"
  by (auto simp: performSecurityAudit_def)

theorem performSecurityAudit_snapshot_witness:
  "performSecurityAudit quantum0 = Inl (Error ''No active connection to audit'') \<and>
   performSecurityAudit (quantum0\<lparr>currentConnection := Some (connQ\<lparr>securityMetrics := None\<rparr>)\<rparr>)
     = Inl (Error ''No security metrics available'') \<and>
   map_sum id riskLevel (performSecurityAudit (quantum0\<lparr>currentConnection := Some connQ\<rparr>))
     = Inr ''MEDIUM''"
proof -
  have 1: "currentConnection quantum0 = None"
    by (simp add: quantum0_def new_quantum_def)
  have 2: "currentConnection (quantum0\<lparr>currentConnection := Some (connQ\<lparr>securityMetrics := None\<rparr>)\<rparr>)
             = Some (connQ\<lparr>securityMetrics := None\<rparr>)"
    "securityMetrics (connQ\<lparr>securityMetrics := None\<rparr>) = None"
    by simp_all
  have 3: "currentConnection (quantum0\<lparr>currentConnection := Some connQ\<rparr>) = Some connQ"
    "securityMetrics connQ = Some auditOk"
    by (simp_all add: connQ_def)
  have s: "securityScore auditOk = 72"
    by (simp add: auditOk_def)
  from performSecurityAudit_snapshot [of quantum0] 1
  have a: "performSecurityAudit quantum0 = Inl (Error ''No active connection to audit'')"
    by blast
  from performSecurityAudit_snapshot
         [of "quantum0\<lparr>currentConnection := Some (connQ\<lparr>securityMetrics := None\<rparr>)\<rparr>"] 2
  have b: "performSecurityAudit (quantum0\<lparr>currentConnection := Some (connQ\<lparr>securityMetrics := None\<rparr>)\<rparr>)
             = Inl (Error ''No security metrics available'')"
    by blast
  from performSecurityAudit_snapshot [of "quantum0\<lparr>currentConnection := Some connQ\<rparr>"] 3
  obtain r where r: "performSecurityAudit (quantum0\<lparr>currentConnection := Some connQ\<rparr>) = Inr r"
    and m: "(riskLevel r = ''MEDIUM'') = (60 \<le> securityScore auditOk \<and> securityScore auditOk < 80)"
    by blast
  from m s have "riskLevel r = ''MEDIUM''" by simp
  with a b r show ?thesis by simp
qed

section \<open>Verified properties: health scores\<close>

lemma healthScore_nonneg:
  "(\<forall>k v. m k = Some v \<longrightarrow> 0 \<le> v) \<Longrightarrow> 0 \<le> healthScore m k"
  by (simp add: healthScore_def split: option.splits)

lemma switchLoop_accept:
  "0 < pingProxy c (pings i) \<and> pingProxy c (pings i) < 8000 \<Longrightarrow>
     switchLoop (c # cs) i pings s =
       (Some c,
        s\<lparr>proxyHealthScores := (proxyHealthScores s)
             (proxyKey c \<mapsto> healthScore (proxyHealthScores s) (proxyKey c) + 10),
          currentProxy := Some c\<rparr>)"
  by (simp add: Let_def)

lemma switchLoop_reject:
  "\<not> (0 < pingProxy c (pings i) \<and> pingProxy c (pings i) < 8000) \<Longrightarrow>
     switchLoop (c # cs) i pings s =
       switchLoop cs (Suc i) pings
         (s\<lparr>proxyHealthScores := (proxyHealthScores s)
              (proxyKey c \<mapsto> max 0 (healthScore (proxyHealthScores s) (proxyKey c) - 5))\<rparr>)"
  by (auto simp: Let_def)

lemma switchLoop_nonneg:
  "(\<forall>k v. proxyHealthScores s k = Some v \<longrightarrow> 0 \<le> v) \<Longrightarrow>
     (\<forall>k v. proxyHealthScores (snd (switchLoop cs i pings s)) k = Some v \<longrightarrow> 0 \<le> v)"
proof (induction cs arbitrary: i s)
  case Nil
  then show ?case by simp
next
  case (Cons c cs)
  have h: "0 \<le> healthScore (proxyHealthScores s) (proxyKey c)"
    using Cons.prems by (rule healthScore_nonneg)
  show ?case
  proof (cases "pingProxy c (pings i) > 0 \<and> pingProxy c (pings i) < 8000")
    case True
    with Cons.prems h show ?thesis by (auto simp: Let_def)
  next
    case False
    let ?s' = "s\<lparr>proxyHealthScores := (proxyHealthScores s)
                 (proxyKey c \<mapsto> max 0 (healthScore (proxyHealthScores s) (proxyKey c) - 5))\<rparr>"
    have "\<forall>k v. proxyHealthScores ?s' k = Some v \<longrightarrow> 0 \<le> v"
      using Cons.prems by auto
    then have "\<forall>k v. proxyHealthScores (snd (switchLoop cs (Suc i) pings ?s')) k = Some v \<longrightarrow> 0 \<le> v"
      by (rule Cons.IH)
    moreover have "switchLoop (c # cs) i pings s = switchLoop cs (Suc i) pings ?s'"
      using False by (rule switchLoop_reject)
    ultimately show ?thesis by simp
  qed
qed

lemma switchToNextProxy_nonneg:
  "(\<forall>k v. proxyHealthScores s k = Some v \<longrightarrow> 0 \<le> v) \<Longrightarrow>
     (\<forall>k v. proxyHealthScores (snd (switchToNextProxy s pings)) k = Some v \<longrightarrow> 0 \<le> v)"
  unfolding switchToNextProxy_def Let_def
  using switchLoop_nonneg by (simp split: if_splits)

lemma testHttpConnectivity_nonneg:
  assumes "\<forall>k v. proxyHealthScores s k = Some v \<longrightarrow> 0 \<le> v"
  shows "\<forall>k v. proxyHealthScores (snd (testHttpConnectivity s r)) k = Some v \<longrightarrow> 0 \<le> v"
proof (cases "currentProxy s")
  case None
  with assms show ?thesis by (simp add: testHttpConnectivity_def)
next
  case (Some cur)
  have "0 \<le> healthScore (proxyHealthScores s) (proxyKey cur)"
    using assms by (rule healthScore_nonneg)
  with Some assms show ?thesis
    by (cases r) (auto simp: testHttpConnectivity_def Let_def)
qed

lemma findBestProxy_scores:
  "proxyHealthScores (snd (findBestProxy s shuffled pings)) = proxyHealthScores s"
  by (simp add: findBestProxy_def Let_def split: list.splits prod.splits)

lemma getWorkingProxy_scores:
  "proxyHealthScores (snd (snd (getWorkingProxy s shuffled pings))) = proxyHealthScores s"
proof -
  obtain l s1 where f: "findBestProxy s shuffled pings = (l, s1)"
    by (cases "findBestProxy s shuffled pings")
  with findBestProxy_scores [of s shuffled pings]
  have "proxyHealthScores s1 = proxyHealthScores s" by simp
  with f show ?thesis
    by (simp add: getWorkingProxy_def Let_def split: list.splits option.splits)
qed

lemma step_nonneg:
  assumes "\<forall>k v. proxyHealthScores s k = Some v \<longrightarrow> 0 \<le> v"
  shows "\<forall>k v. proxyHealthScores (step s e) k = Some v \<longrightarrow> 0 \<le> v"
proof (cases e)
  case (EvGetWorking shuffled pings)
  with assms show ?thesis by (simp add: getWorkingProxy_scores)
next
  case (EvSwitch pings)
  with switchToNextProxy_nonneg [OF assms] show ?thesis by simp
next
  case (EvHttpCheck r)
  with testHttpConnectivity_nonneg [OF assms] show ?thesis by simp
next
  case (EvSetCurrent p)
  with assms show ?thesis by simp
qed

lemma run_nonneg:
  "(\<forall>k v. proxyHealthScores s k = Some v \<longrightarrow> 0 \<le> v) \<Longrightarrow>
     (\<forall>k v. proxyHealthScores (run s evs) k = Some v \<longrightarrow> 0 \<le> v)"
  unfolding run_def
proof (induction evs arbitrary: s)
  case Nil
  then show ?case by simp
next
  case (Cons e evs)
  from Cons.IH [OF step_nonneg [OF Cons.prems]] show ?case by simp
qed

text \<open>
  Claim C4. Starting from a freshly constructed manager, after any sequence
  of selections, switches, HTTP-level connectivity checks and assignments of
  the current relay, with any probe outcomes, every stored health score is
  at least 0.
\<close>

theorem health_score_never_negative:
  "proxyHealthScores (run (new_manager ps tc) evs) k = Some v \<Longrightarrow> 0 \<le> v"
proof -
  have "\<forall>k v. proxyHealthScores (new_manager ps tc) k = Some v \<longrightarrow> 0 \<le> v"
    by (simp add: new_manager_def)
  from run_nonneg [OF this] show "proxyHealthScores (run (new_manager ps tc) evs) k = Some v \<Longrightarrow> 0 \<le> v"
    by blast
qed

lemma string_of_nat_small: "n < 10 \<Longrightarrow> string_of_nat n = [digit_char n]"
  by (simp add: string_of_nat.simps [of n])

lemma string_of_nat_large:
  "10 \<le> n \<Longrightarrow> string_of_nat n = string_of_nat (n div 10) @ [digit_char (n mod 10)]"
  by (simp add: string_of_nat.simps [of n])

lemma string_of_nat_1080: "string_of_nat 1080 = ''1080''"
  by (simp add: string_of_nat_small string_of_nat_large digit_char_def)

lemma string_of_nat_8080: "string_of_nat 8080 = ''8080''"
  by (simp add: string_of_nat_small string_of_nat_large digit_char_def)

lemma proxyKey_relayA: "proxyKey relayA = ''10.0.0.1:8080''"
  by (simp add: proxyKey_def relayA_def string_of_int_def string_of_nat_8080)

lemma proxyKey_relayB: "proxyKey relayB = ''10.0.0.2:1080''"
  by (simp add: proxyKey_def relayB_def string_of_int_def string_of_nat_1080)

lemma run_example:
  "proxyHealthScores
     (run (new_manager [relayA, relayB] 5)
        [EvSetCurrent relayA, EvSwitch (\<lambda>i. ProbeResponded 200 True 9000),
         EvSetCurrent relayB, EvHttpCheck HttpThrew]) ''10.0.0.2:1080'' = Some 0"
  by (simp add: run_def new_manager_def switchToNextProxy_def testHttpConnectivity_def Let_def
        proxyKey_relayA proxyKey_relayB sortCandidates_def healthScore_def)

theorem health_score_never_negative_witness:
  "proxyHealthScores
     (run (new_manager [relayA, relayB] 5)
        [EvSetCurrent relayA, EvSwitch (\<lambda>i. ProbeResponded 200 True 9000),
         EvSetCurrent relayB, EvHttpCheck HttpThrew]) ''10.0.0.2:1080'' = Some 0 \<and> (0::int) \<le> 0"
  using health_score_never_negative [OF run_example] run_example
  by simp

lemma switchLoop_mutations:
  "\<exists>j mid. j \<le> length cs \<and>
      ((\<lambda>m m'. \<exists>k. score_mutation SwitchRejected k m m') ^^ j) (proxyHealthScores s) mid \<and>
      (proxyHealthScores (snd (switchLoop cs i pings s)) = mid \<or>
       (j < length cs \<and>
        (\<exists>k. score_mutation SwitchAccepted k mid (proxyHealthScores (snd (switchLoop cs i pings s))))))"
proof (induction cs arbitrary: i s)
  case Nil
  have "((\<lambda>m m'. \<exists>k. score_mutation SwitchRejected k m m') ^^ 0) (proxyHealthScores s) (proxyHealthScores s)"
    by simp
  then show ?case by auto
next
  case (Cons c cs)
  let ?R = "\<lambda>m m'. \<exists>k. score_mutation SwitchRejected k m m'"
  let ?m = "proxyHealthScores s"
  show ?case
  proof (cases "0 < pingProxy c (pings i) \<and> pingProxy c (pings i) < 8000")
    case True
    have "score_mutation SwitchAccepted (proxyKey c) ?m
            (proxyHealthScores (snd (switchLoop (c # cs) i pings s)))"
      unfolding switchLoop_accept [where c = c and pings = pings and i = i, OF True] by (simp add: score_mutation.accepted)
    moreover have "(?R ^^ 0) ?m ?m" by simp
    ultimately show ?thesis
      by (intro exI [of _ 0] exI [of _ ?m]) auto
  next
    case False
    let ?m' = "?m(proxyKey c \<mapsto> max 0 (healthScore ?m (proxyKey c) - 5))"
    let ?s' = "s\<lparr>proxyHealthScores := ?m'\<rparr>"
    have eq: "switchLoop (c # cs) i pings s = switchLoop cs (Suc i) pings ?s'"
      using False by (rule switchLoop_reject)
    have r: "?R ?m ?m'"
      by (intro exI [of _ "proxyKey c"]) (rule score_mutation.rejected)
    have sel: "proxyHealthScores ?s' = ?m'"
      by simp
    from Cons.IH [of ?s' "Suc i"] obtain j mid where j: "j \<le> length cs"
      and p: "(?R ^^ j) ?m' mid"
      and d: "proxyHealthScores (snd (switchLoop cs (Suc i) pings ?s')) = mid \<or>
              (j < length cs \<and>
               (\<exists>k. score_mutation SwitchAccepted k mid
                      (proxyHealthScores (snd (switchLoop cs (Suc i) pings ?s')))))"
      unfolding sel by blast
    from r p have "(?R ^^ Suc j) ?m mid"
      by (rule relpowp_Suc_I2)
    with j d show ?thesis
      unfolding eq by (intro exI [of _ "Suc j"] exI [of _ mid]) auto
  qed
qed

lemma switchToNextProxy_mutations:
  "\<exists>j mid. j \<le> 3 \<and>
      ((\<lambda>m m'. \<exists>k. score_mutation SwitchRejected k m m') ^^ j) (proxyHealthScores s) mid \<and>
      (proxyHealthScores (snd (switchToNextProxy s pings)) = mid \<or>
       (j < 3 \<and>
        (\<exists>k. score_mutation SwitchAccepted k mid (proxyHealthScores (snd (switchToNextProxy s pings))))))"
proof -
  let ?R = "\<lambda>m m'. \<exists>k. score_mutation SwitchRejected k m m'"
  let ?av = "filter (\<lambda>p. Some (proxyKey p) \<noteq> map_option proxyKey (currentProxy s)) (proxies s)"
  let ?cs = "take 3 (sortCandidates (proxyHealthScores s) ?av)"
  show ?thesis
  proof (cases "proxies s = [] \<or> ?av = []")
    case True
    then have "proxyHealthScores (snd (switchToNextProxy s pings)) = proxyHealthScores s"
      by (auto simp: switchToNextProxy_def Let_def)
    moreover have "(?R ^^ 0) (proxyHealthScores s) (proxyHealthScores s)" by simp
    ultimately show ?thesis
      by (intro exI [of _ 0] exI [of _ "proxyHealthScores s"]) auto
  next
    case False
    then have eq: "switchToNextProxy s pings = switchLoop ?cs 0 pings s"
      by (simp add: switchToNextProxy_def Let_def)
    have len: "length ?cs \<le> 3" by simp
    from switchLoop_mutations [of ?cs s 0 pings] obtain j mid where "j \<le> length ?cs"
      and "(?R ^^ j) (proxyHealthScores s) mid"
      and "proxyHealthScores (snd (switchLoop ?cs 0 pings s)) = mid \<or>
           (j < length ?cs \<and>
            (\<exists>k. score_mutation SwitchAccepted k mid (proxyHealthScores (snd (switchLoop ?cs 0 pings s)))))"
      by blast
    with len show ?thesis
      unfolding eq by (intro exI [of _ j] exI [of _ mid]) auto
  qed
qed

lemma testHttpConnectivity_mutation:
  "currentProxy s = Some cur \<Longrightarrow>
     score_mutation (http_kind r) (proxyKey cur) (proxyHealthScores s)
       (proxyHealthScores (snd (testHttpConnectivity s r)))"
  by (cases r) (auto simp: testHttpConnectivity_def Let_def intro: score_mutation.intros)

lemma testHttpConnectivity_no_current:
  "currentProxy s = None \<Longrightarrow>
     proxyHealthScores (snd (testHttpConnectivity s r)) = proxyHealthScores s"
  by (simp add: testHttpConnectivity_def)

lemma switchLoop_dom:
  "dom (proxyHealthScores s) \<subseteq> dom (proxyHealthScores (snd (switchLoop cs i pings s)))"
proof (induction cs arbitrary: i s)
  case Nil
  show ?case by simp
next
  case (Cons c cs)
  show ?case
  proof (cases "0 < pingProxy c (pings i) \<and> pingProxy c (pings i) < 8000")
    case True
    show ?thesis unfolding switchLoop_accept [where c = c and pings = pings and i = i, OF True] by auto
  next
    case False
    let ?s' = "s\<lparr>proxyHealthScores := (proxyHealthScores s)
                 (proxyKey c \<mapsto> max 0 (healthScore (proxyHealthScores s) (proxyKey c) - 5))\<rparr>"
    have "dom (proxyHealthScores s) \<subseteq> dom (proxyHealthScores ?s')" by auto
    also have "\<dots> \<subseteq> dom (proxyHealthScores (snd (switchLoop cs (Suc i) pings ?s')))"
      by (rule Cons.IH)
    finally show ?thesis unfolding switchLoop_reject [where c = c and pings = pings and i = i, OF False] .
  qed
qed

lemma step_dom: "dom (proxyHealthScores s) \<subseteq> dom (proxyHealthScores (step s e))"
proof (cases e)
  case (EvGetWorking shuffled pings)
  then show ?thesis by (simp add: getWorkingProxy_scores)
next
  case (EvSwitch pings)
  have "dom (proxyHealthScores s) \<subseteq> dom (proxyHealthScores (snd (switchToNextProxy s pings)))"
    using switchLoop_dom by (simp add: switchToNextProxy_def Let_def)
  with EvSwitch show ?thesis by simp
next
  case (EvHttpCheck r)
  have "dom (proxyHealthScores s) \<subseteq> dom (proxyHealthScores (snd (testHttpConnectivity s r)))"
    by (cases r) (auto simp: testHttpConnectivity_def Let_def split: option.splits)
  with EvHttpCheck show ?thesis by simp
next
  case (EvSetCurrent p)
  then show ?thesis by simp
qed

text \<open>
  Claim C5 as stated fails. A successful HTTP-level check raises the score of
  the current relay by 1, which is none of +10, -5, -2, -3; and a failed check
  on a relay whose score is 1 lowers it by 1 only, because of the floor at 0.
\<close>

theorem health_score_delta_counterexample:
  "healthScore (proxyHealthScores (snd (testHttpConnectivity managerB (HttpResponded 200)))) ''10.0.0.2:1080''
     - healthScore (proxyHealthScores managerB) ''10.0.0.2:1080'' = 1 \<and>
   healthScore (proxyHealthScores (snd (testHttpConnectivity managerB1 HttpThrew))) ''10.0.0.2:1080''
     - healthScore (proxyHealthScores managerB1) ''10.0.0.2:1080'' = - 1"
  by (simp add: managerB1_def testHttpConnectivity_def managerB_def new_manager_def Let_def
        proxyKey_relayB healthScore_def)

text \<open>
  Claim C5, amended. Every update of the health map replaces the score of one
  key (0 when absent) by that score plus 10 (accepted switch candidate) or
  plus 1 (successful HTTP-level check), or by that score minus 5 (rejected
  switch candidate), minus 2 or minus 3 (failed HTTP-level check) floored at
  0. A switch makes at most three such updates: rejections, then at most one
  acceptance. An HTTP-level check makes exactly one, on the key of the
  current relay, and none when there is no current relay. Selection makes
  none, and no operation removes an entry.
\<close>

theorem health_score_mutations:
  "(\<exists>j mid. j \<le> 3 \<and>
      ((\<lambda>m m'. \<exists>k. score_mutation SwitchRejected k m m') ^^ j) (proxyHealthScores s) mid \<and>
      (proxyHealthScores (snd (switchToNextProxy s pings)) = mid \<or>
       (j < 3 \<and>
        (\<exists>k. score_mutation SwitchAccepted k mid (proxyHealthScores (snd (switchToNextProxy s pings))))))) \<and>
   (\<forall>cur. currentProxy s = Some cur \<longrightarrow>
      score_mutation (http_kind r) (proxyKey cur) (proxyHealthScores s)
        (proxyHealthScores (snd (testHttpConnectivity s r)))) \<and>
   (currentProxy s = None \<longrightarrow>
      proxyHealthScores (snd (testHttpConnectivity s r)) = proxyHealthScores s) \<and>
   proxyHealthScores (snd (snd (getWorkingProxy s shuffled pings'))) = proxyHealthScores s \<and>
   dom (proxyHealthScores s) \<subseteq> dom (proxyHealthScores (step s e))"
  using switchToNextProxy_mutations [of s pings] testHttpConnectivity_mutation [of s _ r]
    testHttpConnectivity_no_current [of s r] getWorkingProxy_scores [of s shuffled pings']
    step_dom [of s e]
  by (intro conjI allI impI)

theorem health_score_mutations_witness:
  "score_mutation HttpSucceeded ''10.0.0.2:1080'' (proxyHealthScores managerB)
     (proxyHealthScores (snd (testHttpConnectivity managerB (HttpResponded 200)))) \<and>
   proxyHealthScores (snd (testHttpConnectivity (new_manager [relayA] 5) HttpThrew)) = Map.empty"
proof -
  have c: "currentProxy managerB = Some relayB"
    by (simp add: managerB_def)
  have n: "currentProxy (new_manager [relayA] 5) = None"
    by (simp add: new_manager_def)
  note t1 = health_score_mutations [of managerB undefined "HttpResponded 200" undefined undefined undefined]
  note t2 = health_score_mutations [of "new_manager [relayA] 5" undefined HttpThrew undefined undefined undefined]
  from t1 [THEN conjunct2, THEN conjunct1, rule_format, OF c]
  have a: "score_mutation HttpSucceeded ''10.0.0.2:1080'' (proxyHealthScores managerB)
     (proxyHealthScores (snd (testHttpConnectivity managerB (HttpResponded 200))))"
    by (simp add: proxyKey_relayB)
  from t2 [THEN conjunct2, THEN conjunct2, THEN conjunct1, rule_format, OF n]
  have b: "proxyHealthScores (snd (testHttpConnectivity (new_manager [relayA] 5) HttpThrew)) = Map.empty"
    by (simp add: new_manager_def)
  from a b show ?thesis by (intro conjI)
qed

section \<open>Verified properties: parsing and loading the pool\<close>







lemma digit_cases:
  "d < 10 \<Longrightarrow> d = 0 \<or> d = 1 \<or> d = 2 \<or> d = 3 \<or> d = 4 \<or> d = 5 \<or> d = 6 \<or> d = 7 \<or> d = 8 \<or> d = (9::nat)"
  by arith

lemma digit_char_facts:
  assumes "d < 10"
  shows "digit_val (digit_char d) = Some d"
    and "\<not> is_ws (digit_char d)"
    and "digit_char d \<noteq> CHR ''-''" and "digit_char d \<noteq> CHR ''+''"
    and "digit_char d \<noteq> CHR ''x''" and "digit_char d \<noteq> CHR ''X''"
    and "digit_char d \<noteq> CHR '':''" and "digit_char d \<noteq> CHR ''/''"
  using digit_cases [OF assms]
  by (auto simp: digit_char_def digit_val_def is_ws_def)

lemma digit_char_values: "map digit_char [0, 1, 2, 3, 4, 5, 6, 7, 8, 9] = ''0123456789''"
  by (simp add: digit_char_def)

lemma is_decimal_digit_iff: "is_decimal_digit c = (\<exists>d<10. c = digit_char d)"
proof
  assume "is_decimal_digit c"
  then have "c \<in> set (map digit_char [0, 1, 2, 3, 4, 5, 6, 7, 8, 9])"
    by (simp only: digit_char_values is_decimal_digit_def)
  then obtain d where "d \<in> set [0, 1, 2, 3, 4, 5, 6, 7, 8, 9::nat]" and c: "c = digit_char d"
    by auto
  then have "d < 10" by auto
  with c show "\<exists>d<10. c = digit_char d" by blast
next
  assume "\<exists>d<10. c = digit_char d"
  then obtain d where "d < 10" and "c = digit_char d" by blast
  with digit_cases [of d] show "is_decimal_digit c"
    by (auto simp: digit_char_def is_decimal_digit_def)
qed

lemma decimal_iff: "decimal s = (\<forall>c \<in> set s. \<exists>d<10. c = digit_char d)"
  by (simp add: decimal_def is_decimal_digit_iff)

lemma is_radix_digit_decimal: "is_radix_digit 10 c = is_decimal_digit c"
proof
  assume "is_radix_digit 10 c"
  then show "is_decimal_digit c"
    by (auto simp: is_radix_digit_def digit_val_def is_decimal_digit_def split: option.splits if_splits)
next
  assume "is_decimal_digit c"
  then obtain d where "d < 10" and "c = digit_char d"
    unfolding is_decimal_digit_iff by blast
  then show "is_radix_digit 10 c"
    by (simp add: is_radix_digit_def digit_char_facts(1))
qed

lemma string_of_nat_decimal: "decimal (string_of_nat n)"
proof (induction n rule: string_of_nat.induct)
  case (1 n)
  show ?case
  proof (cases "n < 10")
    case True
    then show ?thesis by (auto simp: string_of_nat_small decimal_iff)
  next
    case False
    then have "decimal (string_of_nat (n div 10))" by (rule "1.IH")
    moreover have "\<exists>d<10. digit_char (n mod 10) = digit_char d"
      by (intro exI [of _ "n mod 10"]) simp
    ultimately show ?thesis
      using False by (auto simp: string_of_nat_large decimal_iff)
  qed
qed

lemma string_of_nat_nonempty: "string_of_nat n \<noteq> []"
  by (cases "n < 10") (simp_all add: string_of_nat_small string_of_nat_large)

lemma radix_value_snoc:
  "radix_value R (xs @ [c]) = radix_value R xs * R + (case digit_val c of None \<Rightarrow> 0 | Some d \<Rightarrow> d)"
  by (simp add: radix_value_def)

lemma radix_value_string_of_nat: "radix_value 10 (string_of_nat n) = n"
proof (induction n rule: string_of_nat.induct)
  case (1 n)
  show ?case
  proof (cases "n < 10")
    case True
    then show ?thesis
      by (simp add: string_of_nat_small radix_value_def digit_char_facts(1))
  next
    case False
    then have "radix_value 10 (string_of_nat (n div 10)) = n div 10" by (rule "1.IH")
    moreover have "digit_val (digit_char (n mod 10)) = Some (n mod 10)"
      by (rule digit_char_facts(1)) simp
    ultimately show ?thesis
      using False by (simp add: string_of_nat_large radix_value_snoc)
  qed
qed

lemma decimal_takeWhile: "decimal s \<Longrightarrow> takeWhile (is_radix_digit 10) s = s"
proof -
  assume "decimal s"
  then have "\<forall>c \<in> set s. is_radix_digit 10 c"
    by (auto simp: decimal_iff is_radix_digit_def digit_char_facts(1))
  then show ?thesis by (simp add: takeWhile_eq_all_conv)
qed

lemma parseInt_decimal_prefix:
  assumes "ds \<noteq> []" and "decimal ds"
    and "rest = [] \<or> \<not> is_decimal_digit (hd rest)"
    and "\<not> (ds = ''0'' \<and> rest \<noteq> [] \<and> (hd rest = CHR ''x'' \<or> hd rest = CHR ''X''))"
  shows "parseInt (ds @ rest) = Some (int (radix_value 10 ds))"
proof -
  let ?s = "ds @ rest"
  from assms(1) obtain a r where ds: "ds = a # r" by (cases ds) auto
  with assms(2) obtain d where d: "d < 10" "a = digit_char d"
    by (auto simp: decimal_iff)
  note f = digit_char_facts [OF d(1)]
  have ws: "dropWhile is_ws ?s = ?s"
    using ds d f(2) by simp
  have sg: "(case ?s of [] \<Rightarrow> 1 | c # r \<Rightarrow> if c = CHR ''-'' then - 1 else (1::int)) = 1"
    using ds d f(3) by simp
  have s1: "(case ?s of [] \<Rightarrow> [] | c # r \<Rightarrow> if c = CHR ''-'' \<or> c = CHR ''+'' then r else ?s) = ?s"
    using ds d f(3,4) by simp
  have hexF: "(case ?s of a # b # r \<Rightarrow> a = CHR ''0'' \<and> (b = CHR ''x'' \<or> b = CHR ''X'') | _ \<Rightarrow> False) = False"
  proof (cases r)
    case Nil
    show ?thesis
    proof (cases rest)
      case Nil
      with ds \<open>r = []\<close> show ?thesis by simp
    next
      case (Cons b rest')
      with ds \<open>r = []\<close> assms(4) show ?thesis by auto
    qed
  next
    case (Cons b r')
    with ds assms(2) obtain e where "e < 10" "b = digit_char e"
      by (auto simp: decimal_iff)
    with digit_char_facts(5,6) [of e] ds Cons show ?thesis by simp
  qed
  have all: "\<And>c. c \<in> set ds \<Longrightarrow> is_radix_digit 10 c"
    using assms(2) by (simp add: decimal_def is_radix_digit_decimal)
  have stop: "takeWhile (is_radix_digit 10) rest = []"
    using assms(3) by (cases rest) (auto simp: is_radix_digit_decimal)
  have tw: "takeWhile (is_radix_digit 10) ?s = ds"
    using all stop by (simp add: takeWhile_append2)
  show ?thesis
    unfolding parseInt_def Let_def ws sg s1 hexF if_False tw using assms(1) by simp
qed

lemma parseInt_decimal:
  assumes "s \<noteq> []" and "decimal s"
  shows "parseInt s = Some (int (radix_value 10 s))"
  using parseInt_decimal_prefix [OF assms, of "[]"] by simp

lemma parseInt_string_of_nat: "parseInt (string_of_nat n) = Some (int n)"
  using parseInt_decimal [OF string_of_nat_nonempty string_of_nat_decimal, of n]
  by (simp add: radix_value_string_of_nat)

















text \<open>
  A line on which \<^verbatim>\<open>new URL\<close> throws ends the loading: the error is
  logged and the lines after it are never parsed.
\<close>

lemma loadLines_url_throws:
  "js_includes ''://'' (js_trim line) \<Longrightarrow> U (js_trim line) = Inl e \<Longrightarrow>
     loadLines U proto (line # rest) acc = (Some e, acc)"
  by (simp add: parseProxy_def)

text \<open>A port text with the prefix \<^verbatim>\<open>0x\<close> is read in radix 16.\<close>

lemma parseProxy_hex_example:
  "parseProxy noUrl ''10.0.0.1:0x50'' ''http'' =
     Inr (Some \<lparr>host = ''10.0.0.1'', port = 80, protocol = ''http'', responseTime = None\<rparr>)"
  by (simp add: parseProxy_def checkParts_def parseInt_def Let_def is_ws_def is_radix_digit_def
        digit_val_def radix_value_def)











end
